theory Spec2Isabelle
  imports Main "HOL-Library.Word"
begin

unbundle bit_operations_syntax

section \<open>Go control flow and errors as values\<close>

text \<open>
  A Go call either returns, panics (a run-time panic such as a nil dereference or an index
  out of range, or an explicit \<^verbatim>\<open>panic(msg)\<close>), or ends the process through
  \<^verbatim>\<open>log.Fatal()\<close> (zerolog writes the event and calls \<^verbatim>\<open>os.Exit(1)\<close>).
  \<open>Fatal\<close> carries the elapsed seconds that the only fatal message of the modelled code
  prints.
\<close>

datatype panic = NilPointerDereference | IndexOutOfRange | PanicMessage string

datatype 'a outcome = Returned 'a | Panicked panic | Fatal int

text \<open>
  The values of Go's \<^verbatim>\<open>error\<close> interface that the modelled functions build or pass on.
  Only \<open>HttpError\<close> (\<^verbatim>\<open>types.NewHttpError(code, message)\<close>) carries an HTTP status code.
\<close>

datatype error =
    NoConnection int          \<comment> \<open>\<^verbatim>\<open>fmt.Errorf("No connection to broker %d", ordinal)\<close>\<close>
  | NoBroker int              \<comment> \<open>\<^verbatim>\<open>fmt.Errorf("No broker %d obtained", ordinal)\<close>\<close>
  | StatusError string        \<comment> \<open>\<^verbatim>\<open>errors.New(resp.Status)\<close>\<close>
  | HttpError int string      \<comment> \<open>\<^verbatim>\<open>types.NewHttpError(statusCode, message)\<close>\<close>
  | NumError string           \<comment> \<open>\<^verbatim>\<open>strconv.ParseInt\<close> rejected the text\<close>
  | JsonSyntaxError           \<comment> \<open>the body holds no well-formed JSON value\<close>
  | UnmarshalTypeError        \<comment> \<open>a JSON value of the wrong kind for the Go type\<close>
  | OtherError string         \<comment> \<open>any error produced outside the modelled code\<close>

section \<open>Data model (package types)\<close>

text \<open>
  Modelled from the spec: the declaration of \<^verbatim>\<open>types.Token\<close> is not among the sources.
  The spec calls it a signed integer position on the ring, and the handlers build it with
  \<^verbatim>\<open>Token(token)\<close> from the result of \<^verbatim>\<open>strconv.ParseInt(_, 10, 64)\<close>: a 64-bit
  two's complement integer, read with \<open>sint\<close>.
\<close>

type_synonym Token = "64 word"

type_synonym UUID = "128 word"

type_synonym GenStatus = int

record BrokerInfo =
  IsSelf :: bool
  Ordinal :: int
  HostName :: string

record TopicDataId =
  Name :: string
  Token :: Token
  GenId :: "16 word"

record Generation =
  Start :: Token
  End :: Token
  Version :: int
  Timestamp :: "64 word"
  Leader :: int
  Followers :: "int list"
  Tx :: UUID
  TxLeader :: int
  Status :: GenStatus
  ToDelete :: bool

definition zeroGeneration :: Generation where
  "zeroGeneration =
     \<lparr>Start = 0, End = 0, Version = 0, Timestamp = 0, Leader = 0, Followers = [],
      Tx = 0, TxLeader = 0, Status = 0, ToDelete = False\<rparr>"

subsection \<open>GenStatus\<close>

definition StatusCancelled :: GenStatus where "StatusCancelled = 0"
definition StatusProposed :: GenStatus where "StatusProposed = 1"
definition StatusAccepted :: GenStatus where "StatusAccepted = 2"
definition StatusCommitted :: GenStatus where "StatusCommitted = 3"

definition genStatusNames :: "string list" where
  "genStatusNames = [''Cancelled'', ''Proposed'', ''Accepted'', ''Committed'']"

text \<open>
  \<^verbatim>\<open>func (s GenStatus) String() string { return genStatusNames[s] }\<close>: indexing the
  four-element array with a value outside its bounds is a run-time panic.
\<close>

definition GenStatus_String :: "GenStatus \<Rightarrow> string outcome" where
  "GenStatus_String s =
     (if 0 \<le> s \<and> s < int (length genStatusNames)
      then Returned (genStatusNames ! nat s)
      else Panicked IndexOutOfRange)"

section \<open>The gossiper (package interbroker)\<close>

subsection \<open>JSON values on the wire\<close>

text \<open>
  Bodies are modelled as the JSON value that \<^verbatim>\<open>encoding/json\<close> reads from or writes to
  the stream: \<open>JNum m e\<close> is the number \<open>m * 10 ^ e\<close>, an object keeps its members in
  order. \<open>NotJson\<close> is a body from which the decoder cannot read a JSON value (empty,
  truncated or malformed text).
\<close>

datatype json =
    JNull
  | JBool bool
  | JNum int int
  | JStr string
  | JArr "json list"
  | JObj "(string \<times> json) list"

datatype wire = NotJson | Json json

record Response =
  StatusCode :: int
  StatusText :: string
  Body :: wire

text \<open>
  \<^verbatim>\<open>clientInfo\<close> (declared in a file that is not among the sources) as the gossiper uses it:
  \<^verbatim>\<open>isHostUp()\<close> and the two calls on its \<^verbatim>\<open>client\<close>. \<open>Get url\<close> and
  \<open>Post url body\<close> give Go's pair \<^verbatim>\<open>(resp, err)\<close>; the peer and the network decide it.
\<close>

record clientInfo =
  isHostUp :: bool
  Get :: "string \<Rightarrow> Response option \<times> error option"
  Post :: "string \<Rightarrow> json \<Rightarrow> Response option \<times> error option"

record Discoverer =
  Peers :: "BrokerInfo list"
  Brokers :: "BrokerInfo list"

text \<open>
  The listener as the proposal handler calls it:
  \<^verbatim>\<open>g.genListener.OnNewRemoteGeneration(gens[0], gens[1])\<close>, both arguments of type
  \<^verbatim>\<open>*Generation\<close>.
\<close>

record GenListener =
  OnNewRemoteGeneration :: "Generation option \<Rightarrow> Generation option \<Rightarrow> error option"

text \<open>
  \<^verbatim>\<open>localdb.Client\<close> as the read handler uses it: \<^verbatim>\<open>GetGenerationsByToken(token)\<close> gives a
  slice (\<open>None\<close> is the nil slice) or an error.
\<close>

record LocalDb =
  GetGenerationsByToken :: "Token \<Rightarrow> error + Generation list option"

text \<open>
  \<^verbatim>\<open>conf.GossipConfig\<close> (declared in a package that is not among the sources) as the
  gossiper uses it: \<^verbatim>\<open>GossipPort()\<close>.
\<close>

record GossipConfig =
  GossipPort :: int

text \<open>
  The fields of \<^verbatim>\<open>gossiper\<close> that the modelled functions read or write. \<^verbatim>\<open>localDb\<close>
  and \<^verbatim>\<open>genListener\<close> are interface values, \<open>None\<close> is nil; \<^verbatim>\<open>connections\<close> is
  the map of connections by ordinal. The mutex and the replica writers are left out.
\<close>

record gossiper =
  config :: GossipConfig
  discoverer :: Discoverer
  localDb :: "LocalDb option"
  genListener :: "GenListener option"
  connections :: "int \<Rightarrow> clientInfo option"

text \<open>
  \<^verbatim>\<open>NewGossiper(config, discoverer)\<close> leaves \<^verbatim>\<open>localDb\<close> and \<^verbatim>\<open>genListener\<close> nil and
  the connections empty.
\<close>

definition NewGossiper :: "GossipConfig \<Rightarrow> Discoverer \<Rightarrow> gossiper" where
  "NewGossiper c d =
     \<lparr>config = c, discoverer = d, localDb = None, genListener = None,
      connections = (\<lambda>_. None)\<rparr>"

text \<open>
  \<^verbatim>\<open>RegisterGenListener\<close>: the listener is an interface value, \<open>None\<close> is Go's nil
  interface. The updated gossiper is returned beside the outcome; a panic leaves it as it was.
\<close>

definition RegisterGenListener ::
  "GenListener option \<Rightarrow> gossiper \<Rightarrow> unit outcome \<times> gossiper" where
  "RegisterGenListener listener g =
     (if genListener g \<noteq> None
      then (Panicked (PanicMessage ''Listener registered multiple times''), g)
      else (Returned (), g\<lparr>genListener := listener\<rparr>))"

subsection \<open>Parts of the repository that are not among the sources\<close>

text \<open>
  The functions and constants below belong to files that are not under the sources
  (\<^verbatim>\<open>client.go\<close>, package \<^verbatim>\<open>conf\<close>, the declaration of \<^verbatim>\<open>Token\<close>) or to libraries
  whose output depends on them. They are parameters of the model:
  \<^item> \<open>getPeerUrl broker baseUrl\<close>: \<^verbatim>\<open>g.getPeerUrl(&brokers[ordinal], baseUrl)\<close>;
  \<^item> \<open>generationUrl token\<close>: \<^verbatim>\<open>fmt.Sprintf(conf.GossipGenerationUrl, token.String())\<close>;
  \<^item> \<open>generationProposeUrl token\<close>: \<^verbatim>\<open>fmt.Sprintf(conf.GossipGenerationProposeUrl, token)\<close>;
  \<^item> \<open>generationMembers gen\<close>: the members of the JSON object that \<^verbatim>\<open>encoding/json\<close>
    writes for a \<^verbatim>\<open>Generation\<close> (a struct with no marshalling method is written as an
    object; the text of its \<^verbatim>\<open>Token\<close> and \<^verbatim>\<open>uuid.UUID\<close> members is decided outside);
  \<^item> \<open>unmarshalMembers members\<close>: what \<^verbatim>\<open>encoding/json\<close> decodes from the members of a
    JSON object into a zero \<^verbatim>\<open>Generation\<close>;
  \<^item> \<open>uuidText u\<close>: the text \<^verbatim>\<open>uuid.UUID.MarshalText\<close> gives.
\<close>

record ext =
  getPeerUrl :: "BrokerInfo \<Rightarrow> string \<Rightarrow> string"
  generationUrl :: "Token \<Rightarrow> string"
  generationProposeUrl :: "Token \<Rightarrow> string"
  generationMembers :: "Generation \<Rightarrow> (string \<times> json) list"
  unmarshalMembers :: "(string \<times> json) list \<Rightarrow> error + Generation"
  uuidText :: "UUID \<Rightarrow> string"

text \<open>
  Modelled from the spec: \<^verbatim>\<open>getClientInfo\<close> is declared in a file that is not among the
  sources. The spec gives the transport one connection per peer, keyed by ordinal; the
  lookup gives nil for an ordinal with no connection.
\<close>

definition getClientInfo :: "gossiper \<Rightarrow> int \<Rightarrow> clientInfo option" where
  "getClientInfo g ordinal = connections g ordinal"

subsection \<open>Encoding and decoding generations\<close>

definition marshalGeneration :: "ext \<Rightarrow> Generation \<Rightarrow> json" where
  "marshalGeneration x gen = JObj (generationMembers x gen)"

text \<open>A \<^verbatim>\<open>*Generation\<close> is written as \<^verbatim>\<open>null\<close> when nil.\<close>

definition marshalGenerationPtr :: "ext \<Rightarrow> Generation option \<Rightarrow> json" where
  "marshalGenerationPtr x p = (case p of None \<Rightarrow> JNull | Some gen \<Rightarrow> marshalGeneration x gen)"

definition marshalUUIDPtr :: "ext \<Rightarrow> UUID option \<Rightarrow> json" where
  "marshalUUIDPtr x p = (case p of None \<Rightarrow> JNull | Some u \<Rightarrow> JStr (uuidText x u))"

text \<open>A slice is written as \<^verbatim>\<open>null\<close> when nil and as an array otherwise.\<close>

definition marshalGenerations :: "ext \<Rightarrow> Generation list option \<Rightarrow> json" where
  "marshalGenerations x gens =
     (case gens of None \<Rightarrow> JNull | Some gs \<Rightarrow> JArr (map (marshalGeneration x) gs))"

text \<open>
  Modelled from the spec: the declaration of \<^verbatim>\<open>GenerationProposeMessage\<close> is not among the
  sources; \<^verbatim>\<open>SetGenerationAsProposed\<close> fills its fields \<^verbatim>\<open>Generation\<close> and
  \<^verbatim>\<open>ExpectedTx\<close>, and the spec gives the body as
  \<^verbatim>\<open>{generation: Generation, expectedTx: TransactionId|null}\<close>. Whatever the member names,
  \<^verbatim>\<open>json.Marshal\<close> writes a struct as a JSON object.
\<close>

record GenerationProposeMessage =
  Generation :: "Generation option"
  ExpectedTx :: "UUID option"

definition marshalProposeMessage :: "ext \<Rightarrow> GenerationProposeMessage \<Rightarrow> json" where
  "marshalProposeMessage x message =
     JObj [(''generation'', marshalGenerationPtr x (Generation message)),
           (''expectedTx'', marshalUUIDPtr x (ExpectedTx message))]"

text \<open>The first error in order, or all values.\<close>

fun collect :: "('e + 'a) list \<Rightarrow> 'e + 'a list" where
  "collect [] = Inr []"
| "collect (Inl e # rs) = Inl e"
| "collect (Inr v # rs) = (case collect rs of Inl e \<Rightarrow> Inl e | Inr vs \<Rightarrow> Inr (v # vs))"

text \<open>
  Decoding one element of a \<^verbatim>\<open>[]Generation\<close>: \<^verbatim>\<open>null\<close> leaves the zero value, an object
  is decoded member by member, any other JSON value is a type error.
\<close>

definition decodeGeneration :: "ext \<Rightarrow> json \<Rightarrow> error + Generation" where
  "decodeGeneration x j =
     (case j of
        JNull \<Rightarrow> Inr zeroGeneration
      | JObj members \<Rightarrow> unmarshalMembers x members
      | _ \<Rightarrow> Inl UnmarshalTypeError)"

text \<open>Decoding one element of a \<^verbatim>\<open>[]*Generation\<close>: \<^verbatim>\<open>null\<close> gives the nil pointer.\<close>

definition decodeGenerationPtr :: "ext \<Rightarrow> json \<Rightarrow> error + Generation option" where
  "decodeGenerationPtr x j =
     (case j of
        JNull \<Rightarrow> Inr None
      | JObj members \<Rightarrow>
          (case unmarshalMembers x members of Inl e \<Rightarrow> Inl e | Inr gen \<Rightarrow> Inr (Some gen))
      | _ \<Rightarrow> Inl UnmarshalTypeError)"

text \<open>
  \<^verbatim>\<open>json.NewDecoder(body).Decode(&gens)\<close> into a slice: \<^verbatim>\<open>null\<close> leaves the nil slice (of
  length 0), an array is decoded element by element, every other JSON value (an object, a
  string, a number, a boolean) is a type error.
\<close>

definition decodeGenerations :: "ext \<Rightarrow> wire \<Rightarrow> error + Generation list" where
  "decodeGenerations x body =
     (case body of
        NotJson \<Rightarrow> Inl JsonSyntaxError
      | Json JNull \<Rightarrow> Inr []
      | Json (JArr elems) \<Rightarrow> collect (map (decodeGeneration x) elems)
      | Json _ \<Rightarrow> Inl UnmarshalTypeError)"

definition decodeGenerationPtrs :: "ext \<Rightarrow> wire \<Rightarrow> error + Generation option list" where
  "decodeGenerationPtrs x body =
     (case body of
        NotJson \<Rightarrow> Inl JsonSyntaxError
      | Json JNull \<Rightarrow> Inr []
      | Json (JArr elems) \<Rightarrow> collect (map (decodeGenerationPtr x) elems)
      | Json _ \<Rightarrow> Inl UnmarshalTypeError)"

subsection \<open>The token parameter of a route\<close>

text \<open>
  \<^verbatim>\<open>strings.TrimSpace\<close> on the bytes of a Go string: it removes, from both ends, the runes
  with Unicode's White Space property. Those below U+0080 are one byte each; the others
  are listed by their UTF-8 encoding (U+0085, U+00A0, U+1680, U+2000 to U+200A, U+2028,
  U+2029, U+202F, U+205F, U+3000).
\<close>

definition asciiSpace :: "char \<Rightarrow> bool" where
  "asciiSpace c = (c \<in> set [CHR 0x09, CHR 0x0A, CHR 0x0B, CHR 0x0C, CHR 0x0D, CHR 0x20])"

definition unicodeSpaces :: "string list" where
  "unicodeSpaces =
     [[CHR 0xC2, CHR 0x85], [CHR 0xC2, CHR 0xA0], [CHR 0xE1, CHR 0x9A, CHR 0x80],
      [CHR 0xE2, CHR 0x80, CHR 0x80], [CHR 0xE2, CHR 0x80, CHR 0x81],
      [CHR 0xE2, CHR 0x80, CHR 0x82], [CHR 0xE2, CHR 0x80, CHR 0x83],
      [CHR 0xE2, CHR 0x80, CHR 0x84], [CHR 0xE2, CHR 0x80, CHR 0x85],
      [CHR 0xE2, CHR 0x80, CHR 0x86], [CHR 0xE2, CHR 0x80, CHR 0x87],
      [CHR 0xE2, CHR 0x80, CHR 0x88], [CHR 0xE2, CHR 0x80, CHR 0x89],
      [CHR 0xE2, CHR 0x80, CHR 0x8A], [CHR 0xE2, CHR 0x80, CHR 0xA8],
      [CHR 0xE2, CHR 0x80, CHR 0xA9], [CHR 0xE2, CHR 0x80, CHR 0xAF],
      [CHR 0xE2, CHR 0x81, CHR 0x9F], [CHR 0xE3, CHR 0x80, CHR 0x80]]"

text \<open>The width in bytes of the white-space rune that starts the string, 0 if none does.\<close>

definition spaceWidth :: "string \<Rightarrow> nat" where
  "spaceWidth s =
     (case s of
        [] \<Rightarrow> 0
      | c # _ \<Rightarrow>
          if asciiSpace c then 1
          else (case filter (\<lambda>p. take (length p) s = p) unicodeSpaces of
                  [] \<Rightarrow> 0
                | p # _ \<Rightarrow> length p))"

text \<open>The same at the end of the string.\<close>

definition spaceWidthEnd :: "string \<Rightarrow> nat" where
  "spaceWidthEnd s =
     (case rev s of
        [] \<Rightarrow> 0
      | c # _ \<Rightarrow>
          if asciiSpace c then 1
          else (case filter (\<lambda>p. drop (length s - length p) s = p) unicodeSpaces of
                  [] \<Rightarrow> 0
                | p # _ \<Rightarrow> length p))"

function trimLeft :: "string \<Rightarrow> string" where
  "trimLeft s = (if spaceWidth s = 0 then s else trimLeft (drop (spaceWidth s) s))"
  by pat_completeness auto
termination
  by (relation "measure length") (auto simp: spaceWidth_def split: list.splits)

function trimRight :: "string \<Rightarrow> string" where
  "trimRight s =
     (if spaceWidthEnd s = 0 then s else trimRight (take (length s - spaceWidthEnd s) s))"
  by pat_completeness auto
termination
  by (relation "measure length") (auto simp: spaceWidthEnd_def split: list.splits)

definition TrimSpace :: "string \<Rightarrow> string" where
  "TrimSpace s = trimRight (trimLeft s)"

text \<open>
  \<^verbatim>\<open>strconv.ParseInt(s, 10, 64)\<close>: an optional sign, then one or more decimal digits; the
  value must fit 64 bits in two's complement. Every failure is a \<^verbatim>\<open>*NumError\<close>.
\<close>

definition digitOf :: "char \<Rightarrow> int option" where
  "digitOf c =
     (let n = (of_char c :: int) in if 48 \<le> n \<and> n \<le> 57 then Some (n - 48) else None)"

fun parseDigits :: "int \<Rightarrow> string \<Rightarrow> int option" where
  "parseDigits acc [] = Some acc"
| "parseDigits acc (c # cs) =
     (case digitOf c of None \<Rightarrow> None | Some d \<Rightarrow> parseDigits (acc * 10 + d) cs)"

definition ParseInt :: "string \<Rightarrow> error + 64 word" where
  "ParseInt s =
     (case s of
        [] \<Rightarrow> Inl (NumError s)
      | c # cs \<Rightarrow>
          let neg = (c = CHR ''-'');
              digits = (if c = CHR ''+'' \<or> c = CHR ''-'' then cs else s)
          in if digits = [] then Inl (NumError s)
             else (case parseDigits 0 digits of
                     None \<Rightarrow> Inl (NumError s)
                   | Some un \<Rightarrow>
                       if \<not> neg \<and> 2 ^ 63 \<le> un then Inl (NumError s)
                       else if neg \<and> 2 ^ 63 < un then Inl (NumError s)
                       else Inr (if neg then - word_of_int un else word_of_int un)))"

subsection \<open>Outbound calls (the gossip client)\<close>

text \<open>
  \<^verbatim>\<open>requestGet\<close> and \<^verbatim>\<open>requestPost\<close> give Go's pair \<^verbatim>\<open>(*http.Response, error)\<close>.
  \<^verbatim>\<open>brokers[ordinal]\<close> panics for a negative ordinal (the length check does not exclude
  it), and \<^verbatim>\<open>resp.StatusCode\<close> panics on a nil response that comes with a nil error.
\<close>

definition requestGet ::
  "ext \<Rightarrow> gossiper \<Rightarrow> int \<Rightarrow> string \<Rightarrow> (Response option \<times> error option) outcome" where
  "requestGet x g ordinal baseUrl =
     (case getClientInfo g ordinal of
        None \<Rightarrow> Returned (None, Some (NoConnection ordinal))
      | Some c \<Rightarrow>
          let brokers = Brokers (discoverer g)
          in if int (length brokers) \<le> ordinal then Returned (None, Some (NoBroker ordinal))
             else if ordinal < 0 then Panicked IndexOutOfRange
             else (case Get c (getPeerUrl x (brokers ! nat ordinal) baseUrl) of
                     (resp, Some err) \<Rightarrow> Returned (resp, Some err)
                   | (None, None) \<Rightarrow> Panicked NilPointerDereference
                   | (Some r, None) \<Rightarrow>
                       if StatusCode r \<noteq> 200
                       then Returned (None, Some (StatusError (StatusText r)))
                       else Returned (Some r, None)))"

definition requestPost ::
  "ext \<Rightarrow> gossiper \<Rightarrow> int \<Rightarrow> string \<Rightarrow> json \<Rightarrow> (Response option \<times> error option) outcome"
  where
  "requestPost x g ordinal baseUrl body =
     (case getClientInfo g ordinal of
        None \<Rightarrow> Returned (None, Some (NoConnection ordinal))
      | Some c \<Rightarrow>
          let brokers = Brokers (discoverer g)
          in if int (length brokers) \<le> ordinal then Returned (None, Some (NoBroker ordinal))
             else if ordinal < 0 then Panicked IndexOutOfRange
             else (case Post c (getPeerUrl x (brokers ! nat ordinal) baseUrl) body of
                     (resp, Some err) \<Rightarrow> Returned (resp, Some err)
                   | (None, None) \<Rightarrow> Panicked NilPointerDereference
                   | (Some r, None) \<Rightarrow>
                       if StatusCode r \<noteq> 200
                       then Returned (None, Some (HttpError (StatusCode r) (StatusText r)))
                       else Returned (Some r, None)))"

record GenReadResult =
  Committed :: "Generation option"
  Proposed :: "Generation option"
  Error :: "error option"

text \<open>
  \<^verbatim>\<open>GetGenerations\<close> returns on an error before it touches the response; a slot is
  reported only when the decoded list has it and its \<^verbatim>\<open>Version\<close> is positive.
\<close>

definition GetGenerations :: "ext \<Rightarrow> gossiper \<Rightarrow> int \<Rightarrow> Token \<Rightarrow> GenReadResult outcome" where
  "GetGenerations x g ordinal token =
     (case requestGet x g ordinal (generationUrl x token) of
        Panicked p \<Rightarrow> Panicked p
      | Fatal n \<Rightarrow> Fatal n
      | Returned (r, Some err) \<Rightarrow>
          Returned \<lparr>Committed = None, Proposed = None, Error = Some err\<rparr>
      | Returned (None, None) \<Rightarrow> Panicked NilPointerDereference
      | Returned (Some resp, None) \<Rightarrow>
          (case decodeGenerations x (Body resp) of
             Inl err \<Rightarrow> Returned \<lparr>Committed = None, Proposed = None, Error = Some err\<rparr>
           | Inr gens \<Rightarrow>
               Returned
                 \<lparr>Committed =
                    (if 0 < length gens \<and> 0 < Version (gens ! 0) then Some (gens ! 0) else None),
                  Proposed =
                    (if 1 < length gens \<and> 0 < Version (gens ! 1) then Some (gens ! 1) else None),
                  Error = None\<rparr>))"

text \<open>
  \<^verbatim>\<open>SetGenerationAsProposed\<close>: \<^verbatim>\<open>json.Marshal\<close> cannot fail on this message, so the
  \<^verbatim>\<open>log.Fatal\<close> branch is never taken. \<^verbatim>\<open>newGen.Start\<close> dereferences \<^verbatim>\<open>newGen\<close>. The
  statement \<^verbatim>\<open>defer r.Body.Close()\<close> stands before the error is looked at: Go evaluates
  the method value \<^verbatim>\<open>r.Body.Close\<close> when the \<^verbatim>\<open>defer\<close> statement runs, so a nil \<^verbatim>\<open>r\<close>
  panics there and \<^verbatim>\<open>return err\<close> is never reached.
\<close>

definition SetGenerationAsProposed ::
  "ext \<Rightarrow> gossiper \<Rightarrow> int \<Rightarrow> Generation option \<Rightarrow> UUID option \<Rightarrow> error option outcome"
  where
  "SetGenerationAsProposed x g ordinal newGen expectedTx =
     (let message = \<lparr>Generation = newGen, ExpectedTx = expectedTx\<rparr>;
          jsonBody = marshalProposeMessage x message
      in case newGen of
           None \<Rightarrow> Panicked NilPointerDereference
         | Some gen \<Rightarrow>
             (case requestPost x g ordinal (generationProposeUrl x (Start gen)) jsonBody of
                Panicked p \<Rightarrow> Panicked p
              | Fatal n \<Rightarrow> Fatal n
              | Returned (None, err) \<Rightarrow> Panicked NilPointerDereference
              | Returned (Some r, err) \<Rightarrow> Returned err))"

definition SetAsCommitted ::
  "ext \<Rightarrow> gossiper \<Rightarrow> int \<Rightarrow> Token \<Rightarrow> UUID \<Rightarrow> error option outcome" where
  "SetAsCommitted x g ordinal token tx =
     (let jsonBody = JStr (uuidText x tx)
      in case requestPost x g ordinal (generationProposeUrl x token) jsonBody of
           Panicked p \<Rightarrow> Panicked p
         | Fatal n \<Rightarrow> Fatal n
         | Returned (None, err) \<Rightarrow> Panicked NilPointerDereference
         | Returned (Some r, err) \<Rightarrow> Returned err)"

subsection \<open>Inbound handlers (the gossip server)\<close>

text \<open>
  A handler gets the route's \<^verbatim>\<open>token\<close> parameter and the request body and returns an
  error or nil; the wrappers \<^verbatim>\<open>ToHandle\<close> and \<^verbatim>\<open>ToPostHandle\<close> that turn the returned
  error into a response are not among the sources. \<open>written\<close> is what the handler wrote
  to the response itself. Calling \<^verbatim>\<open>GetGenerationsByToken\<close> on a nil \<^verbatim>\<open>localDb\<close>
  panics.
\<close>

record handled =
  returned :: "error option"
  written :: "json option"

definition getGenHandler :: "ext \<Rightarrow> gossiper \<Rightarrow> string \<Rightarrow> handled outcome" where
  "getGenHandler x g tokenParam =
     (case ParseInt (TrimSpace tokenParam) of
        Inl err \<Rightarrow> Returned \<lparr>returned = Some err, written = None\<rparr>
      | Inr token \<Rightarrow>
          (case localDb g of
             None \<Rightarrow> Panicked NilPointerDereference
           | Some db \<Rightarrow>
               (case GetGenerationsByToken db token of
                  Inr result \<Rightarrow>
                    Returned \<lparr>returned = None, written = Some (marshalGenerations x result)\<rparr>
                | Inl err \<Rightarrow> Returned \<lparr>returned = Some err, written = None\<rparr>)))"

text \<open>
  The proposal handler writes nothing itself. Beside its outcome the model gives the calls
  it made on the registered listener, in order.
\<close>

datatype listenerCall = NewRemoteGeneration "Generation option" "Generation option"

definition postGenHandler ::
  "ext \<Rightarrow> gossiper \<Rightarrow> string \<Rightarrow> wire \<Rightarrow> error option outcome \<times> listenerCall list" where
  "postGenHandler x g tokenParam body =
     (case ParseInt (TrimSpace tokenParam) of
        Inl err \<Rightarrow> (Returned (Some err), [])
      | Inr _ \<Rightarrow>
          (case decodeGenerationPtrs x body of
             Inl err \<Rightarrow> (Returned (Some err), [])
           | Inr gens \<Rightarrow>
               if length gens \<noteq> 2 then
                 (Returned (Some (HttpError 400 ''Generations were not provided'')), [])
               else if gens ! 1 = None then
                 (Returned (Some (HttpError 400 ''Generations were not provided'')), [])
               else
                 (case genListener g of
                    None \<Rightarrow>
                      (Panicked (PanicMessage ''Generation listener was not registered''), [])
                  | Some listener \<Rightarrow>
                      (Returned (OnNewRemoteGeneration listener (gens ! 0) (gens ! 1)),
                       [NewRemoteGeneration (gens ! 0) (gens ! 1)]))))"


subsection \<open>WaitForPeersUp\<close>

text \<open>
  Durations are nanoseconds, as \<^verbatim>\<open>time.Duration\<close> counts them.
\<close>

definition waitForUpDelay :: nat where
  "waitForUpDelay = 200 * 1000000"

definition waitForUpMaxWait :: nat where
  "waitForUpMaxWait = 10 * 60 * 1000000000"

text \<open>
  \<^verbatim>\<open>int(d.Seconds())\<close> for a duration that is not negative: the whole seconds (the
  float \<^verbatim>\<open>Seconds()\<close> gives is exact enough at these sizes for the truncation to be the
  integer quotient).
\<close>

definition wholeSeconds :: "nat \<Rightarrow> int" where
  "wholeSeconds d = int (d div 1000000000)"

text \<open>
  What the barrier does that can be seen from outside: it looks a peer's client up and asks
  it whether the host is up, it logs, it sleeps.
\<close>

datatype event = Probed int | LogWarn string | LogInfo int | LogFatal int | Slept nat

text \<open>
  The surroundings of one call, which change while it waits:
  \<^item> \<open>peersAt n\<close>: the result of the \<open>n\<close>-th call of \<^verbatim>\<open>g.discoverer.Peers()\<close> (the
    emptiness check is call 0, polling round \<open>k\<close> makes call \<open>k + 1\<close>);
  \<^item> \<open>clientAt k ordinal\<close>: \<^verbatim>\<open>g.getClientInfo(ordinal)\<close> in round \<open>k\<close>, its \<open>isHostUp\<close>
    being the answer of \<^verbatim>\<open>isHostUp()\<close> then;
  \<^item> \<open>spentAt k\<close>: the time that passes in round \<open>k\<close> outside the sleep of
    \<^verbatim>\<open>waitForUpDelay\<close> (probing, and any time the previous sleep took beyond its
    duration), before \<^verbatim>\<open>time.Since(start)\<close> is read.
\<close>

record waitEnv =
  peersAt :: "nat \<Rightarrow> BrokerInfo list"
  clientAt :: "nat \<Rightarrow> int \<Rightarrow> clientInfo option"
  spentAt :: "nat \<Rightarrow> nat"

definition peerUp :: "(int \<Rightarrow> clientInfo option) \<Rightarrow> BrokerInfo \<Rightarrow> bool" where
  "peerUp lookup peer =
     (case lookup (Ordinal peer) of None \<Rightarrow> False | Some client \<Rightarrow> isHostUp client)"

text \<open>The inner loop over the peers: it stops at the first peer that is up.\<close>

fun probePeers :: "(int \<Rightarrow> clientInfo option) \<Rightarrow> BrokerInfo list \<Rightarrow> bool \<times> event list" where
  "probePeers lookup [] = (False, [])"
| "probePeers lookup (peer # rest) =
     (if peerUp lookup peer then (True, [Probed (Ordinal peer)])
      else (fst (probePeers lookup rest), Probed (Ordinal peer) # snd (probePeers lookup rest)))"

text \<open>
  The outer loop, from round \<open>k\<close> on: \<open>now\<close> is the time since \<^verbatim>\<open>start\<close> at the
  beginning of the round.
\<close>

function waitLoop :: "waitEnv \<Rightarrow> nat \<Rightarrow> nat \<Rightarrow> int \<Rightarrow> unit outcome \<times> event list" where
  "waitLoop env k now lastWarn =
     (let probe = probePeers (clientAt env k) (peersAt env (Suc k))
      in if fst probe then (Returned (), snd probe)
         else
           let elapsed = wholeSeconds (now + spentAt env k);
               warn = (1 < elapsed \<and> elapsed mod 5 = 0 \<and> elapsed \<noteq> lastWarn);
               logged = (if warn then [LogInfo elapsed] else [])
           in if wholeSeconds waitForUpMaxWait < elapsed
              then (Fatal elapsed, snd probe @ logged @ [LogFatal elapsed])
              else
                let rest = waitLoop env (Suc k) (now + spentAt env k + waitForUpDelay)
                             (if warn then elapsed else lastWarn)
                in (fst rest, snd probe @ logged @ Slept waitForUpDelay # snd rest))"
  by pat_completeness auto
termination
  by (relation "measure (\<lambda>(env, k, now, lastWarn). 601 * 1000000000 + waitForUpDelay - now)")
    (auto simp: wholeSeconds_def waitForUpMaxWait_def waitForUpDelay_def)

declare waitLoop.simps [simp del]

definition WaitForPeersUp :: "waitEnv \<Rightarrow> unit outcome \<times> event list" where
  "WaitForPeersUp env =
     (if length (peersAt env 0) = 0
      then (Returned (), [LogWarn ''No peer detected (dev mode)''])
      else waitLoop env 0 0 0)"




definition isSlept :: "event \<Rightarrow> bool" where
  "isSlept e = (case e of Slept _ \<Rightarrow> True | _ \<Rightarrow> False)"

definition isProbed :: "event \<Rightarrow> bool" where
  "isProbed e = (case e of Probed _ \<Rightarrow> True | _ \<Rightarrow> False)"

subsection \<open>Failed exchanges\<close>

text \<open>
  The ways a POST to a peer fails in \<^verbatim>\<open>requestPost\<close>: there is no connection to the
  peer, the peer is not among the known brokers, the client reports an error and gives no
  response, or the peer answers with a status other than 200 OK.
\<close>

definition exchangeFails :: "ext \<Rightarrow> gossiper \<Rightarrow> int \<Rightarrow> string \<Rightarrow> json \<Rightarrow> bool" where
  "exchangeFails x g ordinal baseUrl body =
     (case getClientInfo g ordinal of
        None \<Rightarrow> True
      | Some c \<Rightarrow>
          if int (length (Brokers (discoverer g))) \<le> ordinal then True
          else if ordinal < 0 then False
          else (case Post c (getPeerUrl x (Brokers (discoverer g) ! nat ordinal) baseUrl) body of
                  (None, Some err) \<Rightarrow> True
                | (Some r, None) \<Rightarrow> StatusCode r \<noteq> 200
                | _ \<Rightarrow> False))"

section \<open>The consumer response (package consuming)\<close>

text \<open>
  \<^verbatim>\<open>conf.Endianness\<close> is declared in a package that is not among the sources: the byte
  order is a parameter, one value for the whole payload.
\<close>

datatype ByteOrder = BigEndian | LittleEndian

text \<open>
  What \<^verbatim>\<open>binary.Write(w, order, v)\<close> writes for a fixed-size integer \<open>v\<close> of \<open>n\<close>
  bytes.
\<close>

definition putBytes :: "ByteOrder \<Rightarrow> nat \<Rightarrow> 'a::len word \<Rightarrow> 8 word list" where
  "putBytes order n v =
     (case order of
        LittleEndian \<Rightarrow> map (\<lambda>i. ucast (drop_bit (8 * i) v)) [0..<n]
      | BigEndian \<Rightarrow> map (\<lambda>i. ucast (drop_bit (8 * i) v)) (rev [0..<n]))"

text \<open>
  The response writer: the header values added, the bytes written so far, and what the
  connection does with the writes to come. Each \<^verbatim>\<open>Write\<close> takes the next entry of
  \<open>faults\<close>: \<open>None\<close> (or no entry left) accepts the bytes, \<open>Some n\<close> fails after
  \<open>n\<close> of them.
\<close>

record ResponseWriter =
  headers :: "(string \<times> string) list"
  sent :: "8 word list"
  faults :: "nat option list"

definition Write :: "8 word list \<Rightarrow> ResponseWriter \<Rightarrow> error option \<times> ResponseWriter" where
  "Write bytes w =
     (case faults w of
        [] \<Rightarrow> (None, w\<lparr>sent := sent w @ bytes\<rparr>)
      | None # rest \<Rightarrow> (None, w\<lparr>sent := sent w @ bytes, faults := rest\<rparr>)
      | Some n # rest \<Rightarrow>
          (Some (OtherError ''write failed''), w\<lparr>sent := sent w @ take n bytes, faults := rest\<rparr>))"

text \<open>\<^verbatim>\<open>if err := step; err != nil { return err }\<close> followed by the rest.\<close>

definition andThen ::
  "error option \<times> ResponseWriter \<Rightarrow> (ResponseWriter \<Rightarrow> error option \<times> ResponseWriter)
   \<Rightarrow> error option \<times> ResponseWriter" where
  "andThen r rest = (case r of (Some err, w) \<Rightarrow> (Some err, w) | (None, w) \<Rightarrow> rest w)"

record SegmentChunk =
  DataBlock :: "8 word list"

record consumerResponseItem =
  chunk :: SegmentChunk
  topic :: TopicDataId

definition Marshal ::
  "ByteOrder \<Rightarrow> consumerResponseItem \<Rightarrow> ResponseWriter \<Rightarrow> error option \<times> ResponseWriter"
  where
  "Marshal order i w =
     andThen (Write (putBytes order 8 (Token (topic i))) w) (\<lambda>w.
     andThen (Write (putBytes order 2 (GenId (topic i))) w) (\<lambda>w.
     andThen (Write (putBytes order 1 (word_of_nat (length (Name (topic i))) :: 8 word)) w) (\<lambda>w.
     andThen (Write (map of_char (Name (topic i))) w) (\<lambda>w.
     andThen (Write (DataBlock (chunk i)) w) (\<lambda>w.
     (None, w))))))"

fun marshalItems ::
  "ByteOrder \<Rightarrow> consumerResponseItem list \<Rightarrow> ResponseWriter \<Rightarrow> error option \<times> ResponseWriter"
  where
  "marshalItems order [] w = (None, w)"
| "marshalItems order (item # rest) w = andThen (Marshal order item w) (marshalItems order rest)"

text \<open>
  \<^verbatim>\<open>marshalResponse\<close>; \<open>contentType\<close> is the package's constant of that name, declared
  in a file that is not among the sources.
\<close>

definition marshalResponse ::
  "string \<Rightarrow> ByteOrder \<Rightarrow> ResponseWriter \<Rightarrow> consumerResponseItem list
   \<Rightarrow> error option \<times> ResponseWriter" where
  "marshalResponse contentType order w responseItems =
     andThen
       (Write (putBytes order 2 (word_of_nat (length responseItems) :: 16 word))
          (w\<lparr>headers := headers w @ [(''Content-Type'', contentType)]\<rparr>))
       (marshalItems order responseItems)"

subsection \<open>The frame in the spec's words\<close>

text \<open>
  The \<open>n\<close> bytes of a natural number in a byte order, and the number a list of bytes
  stands for.
\<close>

definition natBytes :: "ByteOrder \<Rightarrow> nat \<Rightarrow> nat \<Rightarrow> 8 word list" where
  "natBytes order n v =
     (case order of
        LittleEndian \<Rightarrow> map (\<lambda>i. word_of_nat (v div 256 ^ i mod 256)) [0..<n]
      | BigEndian \<Rightarrow> map (\<lambda>i. word_of_nat (v div 256 ^ i mod 256)) (rev [0..<n]))"

definition bytesNat :: "ByteOrder \<Rightarrow> 8 word list \<Rightarrow> nat" where
  "bytesNat order bytes =
     (case order of
        LittleEndian \<Rightarrow> foldr (\<lambda>b acc. unat b + 256 * acc) bytes 0
      | BigEndian \<Rightarrow> foldl (\<lambda>acc b. 256 * acc + unat b) 0 bytes)"

text \<open>
  A 2-byte item count followed by, per item, the token, the generation id, a 1-byte name
  length, the name bytes, and the raw data block.
\<close>

definition frameItem :: "ByteOrder \<Rightarrow> consumerResponseItem \<Rightarrow> 8 word list" where
  "frameItem order i =
     natBytes order 8 (unat (Token (topic i)))
     @ natBytes order 2 (unat (GenId (topic i)))
     @ natBytes order 1 (length (Name (topic i)))
     @ map of_char (Name (topic i))
     @ DataBlock (chunk i)"

definition frame :: "ByteOrder \<Rightarrow> consumerResponseItem list \<Rightarrow> 8 word list" where
  "frame order items = natBytes order 2 (length items) @ concat (map (frameItem order) items)"

section \<open>A sample deployment\<close>

text \<open>
  Concrete values on which the model is evaluated: three brokers, the local one (ordinal 0)
  with a connection to broker 1 only, and a stand-in for the parts that are parameters of
  the model. The stand-in writes a generation with the member names of the struct's tags,
  a token as a decimal number and a UUID as 32 hexadecimal digits in groups of 8-4-4-4-12,
  and reads the members back; a member that is missing or null leaves the zero value. The
  two URL patterns differ, as the two constants of package \<^verbatim>\<open>conf\<close> may.
\<close>

function showDigits :: "int \<Rightarrow> string" where
  "showDigits i =
     (if i < 10 then [char_of (48 + i)] else showDigits (i div 10) @ [char_of (48 + i mod 10)])"
  by pat_completeness auto
termination
  by (relation "measure nat") auto

declare showDigits.simps [simp del]

definition showInt :: "int \<Rightarrow> string" where
  "showInt i = (if i < 0 then CHR ''-'' # showDigits (- i) else showDigits i)"

definition hexText :: "nat \<Rightarrow> int \<Rightarrow> string" where
  "hexText n v = map (\<lambda>i. ''0123456789abcdef'' ! nat (v div 16 ^ i mod 16)) (rev [0..<n])"

definition sampleUuidText :: "UUID \<Rightarrow> string" where
  "sampleUuidText u =
     (let h = hexText 32 (uint u)
      in take 8 h @ ''-'' @ take 4 (drop 8 h) @ ''-'' @ take 4 (drop 12 h) @ ''-''
         @ take 4 (drop 16 h) @ ''-'' @ drop 20 h)"

definition sampleMembers :: "Generation \<Rightarrow> (string \<times> json) list" where
  "sampleMembers gen =
     [(''start'', JNum (sint (Start gen)) 0),
      (''end'', JNum (sint (End gen)) 0),
      (''version'', JNum (Version gen) 0),
      (''timestamp'', JNum (sint (Timestamp gen)) 0),
      (''leader'', JNum (Leader gen) 0),
      (''followers'', JArr (map (\<lambda>f. JNum f 0) (Followers gen))),
      (''tx'', JStr (sampleUuidText (Tx gen))),
      (''txLeader'', JNum (TxLeader gen) 0),
      (''status'', JNum (Status gen) 0),
      (''toDelete'', JBool (ToDelete gen))]"

definition intMember :: "(string \<times> json) list \<Rightarrow> string \<Rightarrow> error + int" where
  "intMember members key =
     (case map_of members key of
        None \<Rightarrow> Inr 0
      | Some JNull \<Rightarrow> Inr 0
      | Some (JNum m e) \<Rightarrow> if e = 0 then Inr m else Inl UnmarshalTypeError
      | Some _ \<Rightarrow> Inl UnmarshalTypeError)"

definition intElement :: "json \<Rightarrow> error + int" where
  "intElement j =
     (case j of
        JNum m e \<Rightarrow> if e = 0 then Inr m else Inl UnmarshalTypeError
      | _ \<Rightarrow> Inl UnmarshalTypeError)"

definition followersMember :: "(string \<times> json) list \<Rightarrow> error + int list" where
  "followersMember members =
     (case map_of members ''followers'' of
        None \<Rightarrow> Inr []
      | Some JNull \<Rightarrow> Inr []
      | Some (JArr elems) \<Rightarrow> collect (map intElement elems)
      | Some _ \<Rightarrow> Inl UnmarshalTypeError)"

definition hexDigitOf :: "char \<Rightarrow> int option" where
  "hexDigitOf c =
     (let n = (of_char c :: int)
      in if 48 \<le> n \<and> n \<le> 57 then Some (n - 48)
         else if 97 \<le> n \<and> n \<le> 102 then Some (n - 87)
         else None)"

fun parseHex :: "int \<Rightarrow> string \<Rightarrow> int option" where
  "parseHex acc [] = Some acc"
| "parseHex acc (c # cs) =
     (if c = CHR ''-'' then parseHex acc cs
      else (case hexDigitOf c of None \<Rightarrow> None | Some d \<Rightarrow> parseHex (16 * acc + d) cs))"

definition txMember :: "(string \<times> json) list \<Rightarrow> error + UUID" where
  "txMember members =
     (case map_of members ''tx'' of
        None \<Rightarrow> Inr 0
      | Some JNull \<Rightarrow> Inr 0
      | Some (JStr text) \<Rightarrow>
          (case parseHex 0 text of
             None \<Rightarrow> Inl (OtherError ''invalid UUID'')
           | Some v \<Rightarrow> Inr (word_of_int v))
      | Some _ \<Rightarrow> Inl UnmarshalTypeError)"

definition toDeleteMember :: "(string \<times> json) list \<Rightarrow> error + bool" where
  "toDeleteMember members =
     (case map_of members ''toDelete'' of
        None \<Rightarrow> Inr False
      | Some JNull \<Rightarrow> Inr False
      | Some (JBool b) \<Rightarrow> Inr b
      | Some _ \<Rightarrow> Inl UnmarshalTypeError)"

definition sampleUnmarshal :: "(string \<times> json) list \<Rightarrow> error + Generation" where
  "sampleUnmarshal members =
     (case collect (map (intMember members)
                      [''start'', ''end'', ''version'', ''timestamp'', ''leader'', ''txLeader'',
                       ''status'']) of
        Inl err \<Rightarrow> Inl err
      | Inr [s, e, v, ts, l, txl, st] \<Rightarrow>
          (case followersMember members of
             Inl err \<Rightarrow> Inl err
           | Inr fs \<Rightarrow>
               (case txMember members of
                  Inl err \<Rightarrow> Inl err
                | Inr u \<Rightarrow>
                    (case toDeleteMember members of
                       Inl err \<Rightarrow> Inl err
                     | Inr del \<Rightarrow>
                         Inr \<lparr>Start = word_of_int s, End = word_of_int e, Version = v,
                              Timestamp = word_of_int ts, Leader = l, Followers = fs,
                              Tx = u, TxLeader = txl, Status = st, ToDelete = del\<rparr>)))
      | Inr _ \<Rightarrow> Inl UnmarshalTypeError)"

definition sampleExt :: ext where
  "sampleExt =
     \<lparr>getPeerUrl = (\<lambda>broker baseUrl. ''http://'' @ HostName broker @ baseUrl),
      generationUrl = (\<lambda>token. ''/v1/generations/'' @ showInt (sint token)),
      generationProposeUrl =
        (\<lambda>token. ''/v1/generations/'' @ showInt (sint token) @ ''/propose''),
      generationMembers = sampleMembers,
      unmarshalMembers = sampleUnmarshal,
      uuidText = sampleUuidText\<rparr>"

definition sampleBrokers :: "BrokerInfo list" where
  "sampleBrokers =
     [\<lparr>IsSelf = True, Ordinal = 0, HostName = ''broker-0''\<rparr>,
      \<lparr>IsSelf = False, Ordinal = 1, HostName = ''broker-1''\<rparr>,
      \<lparr>IsSelf = False, Ordinal = 2, HostName = ''broker-2''\<rparr>]"

definition sampleDiscoverer :: Discoverer where
  "sampleDiscoverer = \<lparr>Peers = tl sampleBrokers, Brokers = sampleBrokers\<rparr>"

definition sampleConfig :: GossipConfig where
  "sampleConfig = \<lparr>GossipPort = 8084\<rparr>"

text \<open>A local store with no generation for any token.\<close>

definition emptyDb :: LocalDb where
  "emptyDb = \<lparr>GetGenerationsByToken = (\<lambda>token. Inr (Some []))\<rparr>"

text \<open>Broker 1, as broker 0 reaches it, with its local store set.\<close>

definition samplePeer :: gossiper where
  "samplePeer = (NewGossiper sampleConfig sampleDiscoverer)\<lparr>localDb := Some emptyDb\<rparr>"

text \<open>
  The connection to broker 1: a GET of a generation URL is answered by the peer's read
  handler with 200 OK and what the handler wrote; every POST on it is cut off.
\<close>

definition sampleClient :: clientInfo where
  "sampleClient =
     \<lparr>isHostUp = True,
      Get = (\<lambda>url.
        (case getGenHandler sampleExt samplePeer
                (drop (length ''http://broker-1/v1/generations/'') url) of
           Returned h \<Rightarrow>
             (case written h of
                Some j \<Rightarrow>
                  (Some \<lparr>StatusCode = 200, StatusText = ''200 OK'', Body = Json j\<rparr>, None)
              | None \<Rightarrow>
                  (Some \<lparr>StatusCode = 500, StatusText = ''500 Internal Server Error'',
                         Body = NotJson\<rparr>, None))
         | _ \<Rightarrow> (None, Some (OtherError ''stream error'')))),
      Post = (\<lambda>url body. (None, Some (OtherError ''connection reset by peer'')))\<rparr>"

definition sampleGossiper :: gossiper where
  "sampleGossiper =
     (NewGossiper sampleConfig sampleDiscoverer)
       \<lparr>connections := (\<lambda>ordinal. if ordinal = 1 then Some sampleClient else None)\<rparr>"

text \<open>
  A connection to a peer that holds a committed generation of version 1 and no proposed
  one for the token asked for: its GET is answered with that generation and a null slot.
\<close>

definition historyClient :: clientInfo where
  "historyClient =
     \<lparr>isHostUp = True,
      Get = (\<lambda>url.
        (Some \<lparr>StatusCode = 200, StatusText = ''200 OK'',
               Body = Json (JArr [JObj [(''start'', JNum 0 0), (''end'', JNum 100 0),
                                        (''version'', JNum 1 0), (''leader'', JNum 2 0),
                                        (''status'', JNum 3 0)],
                                  JNull])\<rparr>, None)),
      Post = (\<lambda>url body. (None, Some (OtherError ''connection reset by peer'')))\<rparr>"

definition historyGossiper :: gossiper where
  "historyGossiper =
     (NewGossiper sampleConfig sampleDiscoverer)
       \<lparr>connections := (\<lambda>ordinal. if ordinal = 2 then Some historyClient else None)\<rparr>"

text \<open>
  A connection to a peer that answers every POST with 200 OK, and a gossiper that reaches
  broker 1 over it.
\<close>

definition answeringClient :: clientInfo where
  "answeringClient =
     \<lparr>isHostUp = True,
      Get = (\<lambda>url. (None, Some (OtherError ''connection reset by peer''))),
      Post = (\<lambda>url body.
        (Some \<lparr>StatusCode = 200, StatusText = ''200 OK'', Body = NotJson\<rparr>, None))\<rparr>"

definition proposingGossiper :: gossiper where
  "proposingGossiper =
     (NewGossiper sampleConfig sampleDiscoverer)
       \<lparr>connections := (\<lambda>ordinal. if ordinal = 1 then Some answeringClient else None)\<rparr>"

definition acceptingListener :: GenListener where
  "acceptingListener = \<lparr>OnNewRemoteGeneration = (\<lambda>existing newGen. None)\<rparr>"

definition rejectingListener :: GenListener where
  "rejectingListener =
     \<lparr>OnNewRemoteGeneration = (\<lambda>existing newGen. Some (HttpError 409 ''Conflict''))\<rparr>"

text \<open>The generation of the spec's first scenario, proposed by broker 2 to follower 3.\<close>

definition sampleGeneration :: Generation where
  "sampleGeneration =
     \<lparr>Start = 0, End = 100, Version = 1, Timestamp = 0, Leader = 2, Followers = [3],
      Tx = 1, TxLeader = 2, Status = StatusProposed, ToDelete = False\<rparr>"


definition devEnv :: waitEnv where
  "devEnv = \<lparr>peersAt = (\<lambda>n. []), clientAt = (\<lambda>k ordinal. None), spentAt = (\<lambda>k. 0)\<rparr>"

text \<open>An item whose topic name has 256 bytes.\<close>

definition longNameItem :: consumerResponseItem where
  "longNameItem =
     \<lparr>chunk = \<lparr>DataBlock = [1, 2, 3]\<rparr>,
      topic = \<lparr>Name = replicate 256 (CHR ''t''), Token = 5, GenId = 1\<rparr>\<rparr>"


definition freshWriter :: ResponseWriter where
  "freshWriter = \<lparr>headers = [], sent = [], faults = []\<rparr>"


section \<open>Auxiliary facts\<close>

subsection \<open>Bytes of integers\<close>

lemma byte_of_word:
  "(ucast (drop_bit (8 * i) (v :: 'a::len word)) :: 8 word) = word_of_nat (unat v div 256 ^ i mod 256)"
proof -
  have p: "(256::nat) ^ i = 2 ^ (8 * i)" by (simp add: power_mult)
  have a: "unat (ucast w :: 8 word) = unat w mod 256" for w :: "'a word"
    by (simp add: unsigned_ucast_eq take_bit_eq_mod)
  have b: "unat (drop_bit (8 * i) v) = unat v div 256 ^ i"
  proof -
    have "unat (drop_bit (8 * i) v) = drop_bit (8 * i) (unat v)" by (rule unat_drop_bit_eq)
    then show ?thesis unfolding p by (simp only: drop_bit_eq_div)
  qed
  have "unat (ucast (drop_bit (8 * i) v) :: 8 word) = unat v div 256 ^ i mod 256"
    by (simp only: a b)
  then show ?thesis
    by (simp add: word_unat_eq_iff unat_of_nat)
qed

lemma putBytes_natBytes: "putBytes order n v = natBytes order n (unat v)"
  by (cases order) (simp_all add: putBytes_def natBytes_def byte_of_word)

lemma natBytes_mod: "natBytes order n (v mod 256 ^ n) = natBytes order n v"
proof -
  have "v mod 256 ^ n div 256 ^ i mod 256 = v div 256 ^ i mod 256" if "i < n" for i
  proof -
    have p: "(256::nat) ^ k = 2 ^ (8 * k)" for k by (simp add: power_mult)
    have q: "(256::nat) = 2 ^ 8" by simp
    have "take_bit 8 (drop_bit (8 * i) (take_bit (8 * n) v)) = take_bit 8 (drop_bit (8 * i) v)"
      using that by (intro bit_eqI) (auto simp: bit_simps)
    then show ?thesis
      unfolding p by (simp only: q take_bit_eq_mod drop_bit_eq_div)
  qed
  then show ?thesis
    by (cases order) (simp_all add: natBytes_def)
qed

lemma foldr_bytes:
  "foldr (\<lambda>b acc. unat b + 256 * acc) (map (\<lambda>i. word_of_nat (v div 256 ^ i mod 256) :: 8 word) [k..<k + n]) 0
   = (v div 256 ^ k) mod 256 ^ n"
proof (induction n arbitrary: k)
  case 0
  then show ?case by simp
next
  case (Suc n)
  have l: "[k..<k + Suc n] = k # [Suc k..<Suc k + n]" by (simp add: upt_rec)
  have d: "v div 256 ^ Suc k = v div 256 ^ k div 256"
    by (metis div_mult2_eq mult.commute power_Suc)
  have m: "v div 256 ^ k mod 256 + 256 * (v div 256 ^ k div 256 mod 256 ^ n) = v div 256 ^ k mod 256 ^ Suc n"
    by (simp add: mod_mult2_eq)
  have "foldr (\<lambda>b acc. unat b + 256 * acc) (map (\<lambda>i. word_of_nat (v div 256 ^ i mod 256) :: 8 word) [k..<k + Suc n]) 0
    = v div 256 ^ k mod 256 + 256 * (v div 256 ^ Suc k mod 256 ^ n)"
    unfolding l using Suc[of "Suc k"] by (simp add: unat_of_nat del: power_Suc)
  then show ?case by (simp only: d m)
qed

lemma bytesNat_natBytes: "bytesNat order (natBytes order n v) = v mod 256 ^ n"
proof (cases order)
  case BigEndian
  have "foldl (\<lambda>acc b. 256 * acc + unat b) 0 (rev xs) = foldr (\<lambda>b acc. unat b + 256 * acc) xs 0" for xs :: "8 word list"
    by (induction xs) simp_all
  then show ?thesis using foldr_bytes[of v 0 n] BigEndian
    by (simp add: bytesNat_def natBytes_def rev_map[symmetric])
next
  case LittleEndian
  then show ?thesis using foldr_bytes[of v 0 n]
    by (simp add: bytesNat_def natBytes_def)
qed

lemma length_natBytes: "length (natBytes order n v) = n"
  by (cases order) (simp_all add: natBytes_def)

lemma small_ranges: "[0..<8] = [0, 1, 2, 3, 4, 5, 6, 7]" "[0..<2] = [0, 1]" "[0..<1] = [0]"
  by (simp_all add: upt_rec)

subsection \<open>Reading a frame back\<close>







subsection \<open>The response writer\<close>

lemma Write_accepted:
  assumes "set (faults w) \<subseteq> {None}"
  shows "fst (Write bytes w) = None \<and> sent (snd (Write bytes w)) = sent w @ bytes
    \<and> headers (snd (Write bytes w)) = headers w \<and> set (faults (snd (Write bytes w))) \<subseteq> {None}"
  using assms by (auto simp: Write_def split: list.splits option.splits)

lemma andThen_accepted:
  assumes "fst r = None"
  shows "andThen r rest = rest (snd r)"
  using assms by (cases r) (simp add: andThen_def)

lemma Marshal_accepted:
  assumes "set (faults w) \<subseteq> {None}"
  shows "fst (Marshal order i w) = None \<and> sent (snd (Marshal order i w)) = sent w @ frameItem order i
    \<and> headers (snd (Marshal order i w)) = headers w \<and> set (faults (snd (Marshal order i w))) \<subseteq> {None}"
proof -
  let ?b1 = "putBytes order 8 (Token (topic i))"
  let ?b2 = "putBytes order 2 (GenId (topic i))"
  let ?b3 = "putBytes order 1 (word_of_nat (length (Name (topic i))) :: 8 word)"
  let ?b4 = "map of_char (Name (topic i)) :: 8 word list"
  let ?b5 = "DataBlock (chunk i)"
  let ?w1 = "snd (Write ?b1 w)"
  let ?w2 = "snd (Write ?b2 ?w1)"
  let ?w3 = "snd (Write ?b3 ?w2)"
  let ?w4 = "snd (Write ?b4 ?w3)"
  let ?w5 = "snd (Write ?b5 ?w4)"
  note a1 = Write_accepted[OF assms, of ?b1]
  have f1: "set (faults ?w1) \<subseteq> {None}" using a1 by simp
  note a2 = Write_accepted[OF f1, of ?b2]
  have f2: "set (faults ?w2) \<subseteq> {None}" using a2 by simp
  note a3 = Write_accepted[OF f2, of ?b3]
  have f3: "set (faults ?w3) \<subseteq> {None}" using a3 by simp
  note a4 = Write_accepted[OF f3, of ?b4]
  have f4: "set (faults ?w4) \<subseteq> {None}" using a4 by simp
  note a5 = Write_accepted[OF f4, of ?b5]
  have m: "Marshal order i w = (None, ?w5)"
    using a1 a2 a3 a4 a5 by (simp add: Marshal_def andThen_accepted)
  have n3: "?b3 = natBytes order 1 (length (Name (topic i)))"
    using natBytes_mod[of order 1 "length (Name (topic i))"]
    by (simp add: putBytes_natBytes unat_of_nat)
  have "sent ?w5 = sent w @ ?b1 @ ?b2 @ ?b3 @ ?b4 @ ?b5"
    using a1 a2 a3 a4 a5 by simp
  then have "sent ?w5 = sent w @ frameItem order i"
    unfolding n3 by (simp add: frameItem_def putBytes_natBytes)
  moreover have "headers ?w5 = headers w" using a1 a2 a3 a4 a5 by simp
  ultimately show ?thesis using m a5 by simp
qed

lemma marshalItems_accepted:
  "set (faults w) \<subseteq> {None} \<Longrightarrow>
   fst (marshalItems order items w) = None
   \<and> sent (snd (marshalItems order items w)) = sent w @ concat (map (frameItem order) items)
   \<and> headers (snd (marshalItems order items w)) = headers w
   \<and> set (faults (snd (marshalItems order items w))) \<subseteq> {None}"
proof (induction items arbitrary: w)
  case Nil
  then show ?case by simp
next
  case (Cons i items)
  note m = Marshal_accepted[OF Cons.prems, of order i]
  have f: "set (faults (snd (Marshal order i w))) \<subseteq> {None}" using m by simp
  show ?case using m Cons.IH[OF f] by (simp add: andThen_accepted)
qed

lemma marshalResponse_accepted:
  assumes "set (faults w) \<subseteq> {None}"
  shows "fst (marshalResponse contentType order w items) = None
   \<and> sent (snd (marshalResponse contentType order w items)) = sent w @ frame order items
   \<and> headers (snd (marshalResponse contentType order w items)) = headers w @ [(''Content-Type'', contentType)]"
proof -
  let ?w0 = "w\<lparr>headers := headers w @ [(''Content-Type'', contentType)]\<rparr>"
  let ?c = "putBytes order 2 (word_of_nat (length items) :: 16 word)"
  have f0: "set (faults ?w0) \<subseteq> {None}" using assms by simp
  note a = Write_accepted[OF f0, of ?c]
  have f1: "set (faults (snd (Write ?c ?w0))) \<subseteq> {None}" using a by simp
  note b = marshalItems_accepted[OF f1, of order items]
  have c: "?c = natBytes order 2 (length items)"
    using natBytes_mod[of order 2 "length items"]
    by (simp add: putBytes_natBytes unat_of_nat)
  show ?thesis using a b
    by (simp add: marshalResponse_def andThen_accepted frame_def c)
qed

subsection \<open>Requests and bodies\<close>


lemma parse_42: "ParseInt (TrimSpace ''42'') = Inr 42"
  by (simp add: ParseInt_def TrimSpace_def spaceWidth_def spaceWidthEnd_def asciiSpace_def
      unicodeSpaces_def digitOf_def)

lemma show_42: "showInt 42 = ''42''"
  by code_simp

lemma parse_0: "ParseInt (TrimSpace ''0'') = Inr 0"
  by (simp add: ParseInt_def TrimSpace_def spaceWidth_def spaceWidthEnd_def asciiSpace_def
      unicodeSpaces_def digitOf_def)

lemma uuid_text_1: "sampleUuidText 1 = ''00000000-0000-0000-0000-000000000001''"
  by code_simp

lemma sample_round_trip: "sampleUnmarshal (sampleMembers sampleGeneration) = Inr sampleGeneration"
  by (simp add: sampleUnmarshal_def sampleMembers_def intMember_def followersMember_def
      intElement_def txMember_def toDeleteMember_def sampleGeneration_def uuid_text_1
      hexDigitOf_def StatusProposed_def)

lemma decode_propose_message:
  "decodeGenerationPtrs x (Json (marshalProposeMessage x message)) = Inl UnmarshalTypeError"
  by (simp add: decodeGenerationPtrs_def marshalProposeMessage_def)

lemma requestPost_fails:
  "exchangeFails x g ordinal baseUrl body \<Longrightarrow>
   \<exists>err. requestPost x g ordinal baseUrl body = Returned (None, Some err)"
  by (auto simp: exchangeFails_def requestPost_def Let_def split: option.splits if_splits prod.splits)

subsection \<open>Rounds of the barrier\<close>









section \<open>Verified properties\<close>

text \<open>
  C1, as amended. \<^verbatim>\<open>SetGenerationAsProposed\<close> posts the marshalled
  \<^verbatim>\<open>GenerationProposeMessage\<close>, a JSON object, to the peer's propose URL
  (\<^verbatim>\<open>conf.GossipGenerationProposeUrl\<close>) and returns nil when the peer answers 200 OK.
  The proposal handler of the generation route, \<^verbatim>\<open>postGenHandler\<close>, takes another
  encoding: a JSON array of two generation slots, the existing generation (possibly null)
  and the new one. For every such pair whose generations \<^verbatim>\<open>encoding/json\<close> reads back
  as it wrote them, the handler decodes the array into the same pair, passes it once to the
  registered listener and returns what the listener returns, nil when the listener accepts.
  The object that \<^verbatim>\<open>SetGenerationAsProposed\<close> marshals is not decoded by this handler,
  for any generation and any expected transaction id: it returns an error (the token's
  parse error, else the decoder's type error) and makes no call on the listener.
\<close>

theorem postGenHandler_round_trip:
  "(getClientInfo g ordinal = Some c \<and> 0 \<le> ordinal
      \<and> ordinal < int (length (Brokers (discoverer g)))
      \<and> Post c (getPeerUrl x (Brokers (discoverer g) ! nat ordinal)
                  (generationProposeUrl x (Start newGen)))
           (marshalProposeMessage x \<lparr>Generation = Some newGen, ExpectedTx = expectedTx\<rparr>)
          = (Some resp, None)
      \<and> StatusCode resp = 200
    \<longrightarrow> SetGenerationAsProposed x g ordinal (Some newGen) expectedTx = Returned None)
   \<and> (ParseInt (TrimSpace tokenParam) = Inr token \<and> genListener peer = Some listener
      \<and> unmarshalMembers x (generationMembers x newGen) = Inr newGen
      \<and> (\<forall>e. existing = Some e \<longrightarrow> unmarshalMembers x (generationMembers x e) = Inr e)
    \<longrightarrow> decodeGenerationPtrs x
          (Json (JArr [marshalGenerationPtr x existing, marshalGeneration x newGen]))
        = Inr [existing, Some newGen]
      \<and> postGenHandler x peer tokenParam
          (Json (JArr [marshalGenerationPtr x existing, marshalGeneration x newGen]))
        = (Returned (OnNewRemoteGeneration listener existing (Some newGen)),
           [NewRemoteGeneration existing (Some newGen)]))
   \<and> postGenHandler x peer tokenParam
         (Json (marshalProposeMessage x \<lparr>Generation = Some newGen, ExpectedTx = expectedTx\<rparr>))
       = (Returned (Some (case ParseInt (TrimSpace tokenParam) of
                            Inl err \<Rightarrow> err
                          | Inr token \<Rightarrow> UnmarshalTypeError)), [])"
proof (intro conjI impI)
  assume "getClientInfo g ordinal = Some c \<and> 0 \<le> ordinal
      \<and> ordinal < int (length (Brokers (discoverer g)))
      \<and> Post c (getPeerUrl x (Brokers (discoverer g) ! nat ordinal)
                  (generationProposeUrl x (Start newGen)))
           (marshalProposeMessage x \<lparr>Generation = Some newGen, ExpectedTx = expectedTx\<rparr>)
          = (Some resp, None)
      \<and> StatusCode resp = 200"
  then show "SetGenerationAsProposed x g ordinal (Some newGen) expectedTx = Returned None"
    by (simp add: SetGenerationAsProposed_def requestPost_def)
next
  assume a: "ParseInt (TrimSpace tokenParam) = Inr token \<and> genListener peer = Some listener
      \<and> unmarshalMembers x (generationMembers x newGen) = Inr newGen
      \<and> (\<forall>e. existing = Some e \<longrightarrow> unmarshalMembers x (generationMembers x e) = Inr e)"
  have e: "decodeGenerationPtr x (marshalGenerationPtr x existing) = Inr existing"
    using a by (cases existing)
      (simp_all add: decodeGenerationPtr_def marshalGenerationPtr_def marshalGeneration_def)
  have n: "decodeGenerationPtr x (marshalGeneration x newGen) = Inr (Some newGen)"
    using a by (simp add: decodeGenerationPtr_def marshalGeneration_def)
  show d: "decodeGenerationPtrs x
          (Json (JArr [marshalGenerationPtr x existing, marshalGeneration x newGen]))
        = Inr [existing, Some newGen]"
    by (simp add: decodeGenerationPtrs_def e n)
  show "postGenHandler x peer tokenParam
          (Json (JArr [marshalGenerationPtr x existing, marshalGeneration x newGen]))
        = (Returned (OnNewRemoteGeneration listener existing (Some newGen)),
           [NewRemoteGeneration existing (Some newGen)])"
    using a by (simp add: postGenHandler_def d)
next
  show "postGenHandler x peer tokenParam
         (Json (marshalProposeMessage x \<lparr>Generation = Some newGen, ExpectedTx = expectedTx\<rparr>))
       = (Returned (Some (case ParseInt (TrimSpace tokenParam) of
                            Inl err \<Rightarrow> err
                          | Inr token \<Rightarrow> UnmarshalTypeError)), [])"
    by (simp add: postGenHandler_def decode_propose_message split: sum.splits)
qed

theorem postGenHandler_round_trip_witness:
  "SetGenerationAsProposed sampleExt proposingGossiper 1 (Some sampleGeneration) None
     = Returned None
   \<and> postGenHandler sampleExt (samplePeer\<lparr>genListener := Some acceptingListener\<rparr>) ''0''
       (Json (JArr [JNull, marshalGeneration sampleExt sampleGeneration]))
     = (Returned None, [NewRemoteGeneration None (Some sampleGeneration)])"
proof -
  let ?resp = "\<lparr>StatusCode = 200, StatusText = ''200 OK'', Body = NotJson\<rparr>"
  let ?peer = "samplePeer\<lparr>genListener := Some acceptingListener\<rparr>"
  have c: "getClientInfo proposingGossiper 1 = Some answeringClient"
    by (simp add: getClientInfo_def proposingGossiper_def)
  have n: "1 < int (length (Brokers (discoverer proposingGossiper)))"
    by (simp add: proposingGossiper_def NewGossiper_def sampleDiscoverer_def sampleBrokers_def)
  have p: "Post answeringClient u b = (Some ?resp, None)" for u b
    by (simp add: answeringClient_def)
  have l: "genListener ?peer = Some acceptingListener"
    by simp
  have u: "unmarshalMembers sampleExt (generationMembers sampleExt sampleGeneration)
           = Inr sampleGeneration"
    by (simp add: sampleExt_def sample_round_trip)
  have m: "marshalGenerationPtr sampleExt None = JNull"
    by (simp add: marshalGenerationPtr_def)
  have a: "OnNewRemoteGeneration acceptingListener None (Some sampleGeneration) = None"
    by (simp add: acceptingListener_def)
  show ?thesis
    using postGenHandler_round_trip
      [of proposingGossiper 1 answeringClient sampleExt sampleGeneration None ?resp
          "''0''" 0 ?peer acceptingListener None]
      c n p l u parse_0
    unfolding m a
    by simp
qed

text \<open>
  The claim as stated fails for the generation of the spec's first scenario with a null
  expected transaction id: the body that \<^verbatim>\<open>SetGenerationAsProposed\<close> marshals is not
  decoded by \<^verbatim>\<open>postGenHandler\<close> into the proposal, and the handler returns the decoder's
  type error without calling a listener that would have accepted. In the sample deployment
  the propose URL it is posted to is not the generation URL either.
\<close>

theorem propose_message_not_decoded:
  "decodeGenerationPtrs sampleExt
     (Json (marshalProposeMessage sampleExt
              \<lparr>Generation = Some sampleGeneration, ExpectedTx = None\<rparr>))
     = Inl UnmarshalTypeError
   \<and> postGenHandler sampleExt (samplePeer\<lparr>genListener := Some acceptingListener\<rparr>) ''0''
       (Json (marshalProposeMessage sampleExt
                \<lparr>Generation = Some sampleGeneration, ExpectedTx = None\<rparr>))
     = (Returned (Some UnmarshalTypeError), [])
   \<and> OnNewRemoteGeneration acceptingListener None (Some sampleGeneration) = None
   \<and> generationProposeUrl sampleExt (Start sampleGeneration) = ''/v1/generations/0/propose''
   \<and> generationUrl sampleExt (Start sampleGeneration) = ''/v1/generations/0''"
proof -
  have s: "showInt 0 = ''0''"
    by code_simp
  have z: "sint (Start sampleGeneration) = 0"
    by (simp add: sampleGeneration_def)
  show ?thesis
    by (simp add: postGenHandler_def parse_0 decode_propose_message acceptingListener_def
        sampleExt_def z s)
qed

text \<open>
  C2. What the code does when an exchange fails. If there is no connection to the peer,
  the peer is not among the known brokers, the client reports an error without a
  response, or the peer answers with a status other than 200 OK, then \<^verbatim>\<open>requestPost\<close>
  returns a nil response with the error, and both \<^verbatim>\<open>SetGenerationAsProposed\<close> and
  \<^verbatim>\<open>SetAsCommitted\<close> panic with a nil pointer dereference at
  \<^verbatim>\<open>defer r.Body.Close()\<close> instead of returning that error. \<^verbatim>\<open>GetGenerations\<close>, which
  looks at the error first, returns it.
\<close>

theorem outbound_failure_panics:
  "(exchangeFails x g ordinal (generationProposeUrl x (Start gen))
      (marshalProposeMessage x \<lparr>Generation = Some gen, ExpectedTx = expectedTx\<rparr>)
    \<longrightarrow> SetGenerationAsProposed x g ordinal (Some gen) expectedTx
        = Panicked NilPointerDereference)
   \<and> (exchangeFails x g ordinal (generationProposeUrl x token) (JStr (uuidText x tx))
    \<longrightarrow> SetAsCommitted x g ordinal token tx = Panicked NilPointerDereference)
   \<and> (getClientInfo g ordinal = None
    \<longrightarrow> GetGenerations x g ordinal token
        = Returned \<lparr>Committed = None, Proposed = None, Error = Some (NoConnection ordinal)\<rparr>)"
proof (intro conjI impI)
  assume "exchangeFails x g ordinal (generationProposeUrl x (Start gen))
      (marshalProposeMessage x \<lparr>Generation = Some gen, ExpectedTx = expectedTx\<rparr>)"
  from requestPost_fails[OF this]
  show "SetGenerationAsProposed x g ordinal (Some gen) expectedTx = Panicked NilPointerDereference"
    by (auto simp: SetGenerationAsProposed_def)
next
  assume "exchangeFails x g ordinal (generationProposeUrl x token) (JStr (uuidText x tx))"
  from requestPost_fails[OF this]
  show "SetAsCommitted x g ordinal token tx = Panicked NilPointerDereference"
    by (auto simp: SetAsCommitted_def)
next
  assume "getClientInfo g ordinal = None"
  then show "GetGenerations x g ordinal token
        = Returned \<lparr>Committed = None, Proposed = None, Error = Some (NoConnection ordinal)\<rparr>"
    by (simp add: GetGenerations_def requestGet_def)
qed

theorem outbound_failure_panics_witness:
  "SetGenerationAsProposed sampleExt sampleGossiper 1 (Some sampleGeneration) None
     = Panicked NilPointerDereference
   \<and> SetAsCommitted sampleExt sampleGossiper 2 100 1 = Panicked NilPointerDereference
   \<and> GetGenerations sampleExt sampleGossiper 2 100
     = Returned \<lparr>Committed = None, Proposed = None, Error = Some (NoConnection 2)\<rparr>"
proof -
  have a: "exchangeFails sampleExt sampleGossiper 1 u b" for u b
    by (simp add: exchangeFails_def getClientInfo_def sampleGossiper_def NewGossiper_def
        sampleDiscoverer_def sampleBrokers_def sampleClient_def)
  have b: "getClientInfo sampleGossiper 2 = None"
    by (simp add: getClientInfo_def sampleGossiper_def NewGossiper_def)
  have c: "exchangeFails sampleExt sampleGossiper 2 u b" for u b
    by (simp add: exchangeFails_def b)
  show ?thesis
    using outbound_failure_panics
      [of sampleExt sampleGossiper 1 sampleGeneration None 100 1]
      outbound_failure_panics
      [of sampleExt sampleGossiper 2 sampleGeneration None 100 1]
      a b c
    by simp
qed

text \<open>
  C3. On a gossiper with no listener bound (as \<^verbatim>\<open>NewGossiper\<close> builds it),
  \<^verbatim>\<open>RegisterGenListener\<close> returns and binds the listener it is given. On a gossiper that
  already has a listener bound, every further call panics with "Listener registered
  multiple times" and the gossiper, with its first listener, is unchanged. So registering
  \<open>l1\<close> and then \<open>l2\<close> on a new gossiper panics at the second call and leaves \<open>l1\<close> bound.
\<close>

theorem RegisterGenListener_once:
  "(genListener g = None \<longrightarrow>
      RegisterGenListener listener g = (Returned (), g\<lparr>genListener := listener\<rparr>))
   \<and> (genListener g = Some l1 \<longrightarrow>
      RegisterGenListener listener g =
        (Panicked (PanicMessage ''Listener registered multiple times''), g))
   \<and> (let (r1, g1) = RegisterGenListener (Some l1) (NewGossiper c d);
           (r2, g2) = RegisterGenListener (Some l2) g1
       in r1 = Returned () \<and> genListener g1 = Some l1
          \<and> r2 = Panicked (PanicMessage ''Listener registered multiple times'')
          \<and> g2 = g1 \<and> genListener g2 = Some l1)"
  by (simp add: RegisterGenListener_def NewGossiper_def)

theorem RegisterGenListener_once_witness:
  "RegisterGenListener (Some acceptingListener) (NewGossiper sampleConfig sampleDiscoverer)
     = (Returned (), (NewGossiper sampleConfig sampleDiscoverer)\<lparr>genListener := Some acceptingListener\<rparr>)
   \<and> RegisterGenListener (Some rejectingListener)
       ((NewGossiper sampleConfig sampleDiscoverer)\<lparr>genListener := Some acceptingListener\<rparr>)
     = (Panicked (PanicMessage ''Listener registered multiple times''),
        (NewGossiper sampleConfig sampleDiscoverer)\<lparr>genListener := Some acceptingListener\<rparr>)"
  using RegisterGenListener_once
      [of "NewGossiper sampleConfig sampleDiscoverer" "Some acceptingListener"]
    RegisterGenListener_once
      [of "(NewGossiper sampleConfig sampleDiscoverer)\<lparr>genListener := Some acceptingListener\<rparr>"
          "Some rejectingListener" acceptingListener]
  by (simp add: NewGossiper_def)

text \<open>
  C4. When the exchange with the peer succeeds (there is a connection, the broker is
  known, the response is 200 OK with the body that the peer's read handler wrote) and the
  peer's local store has no generation for the token (it gives a nil or an empty slice),
  \<^verbatim>\<open>GetGenerations\<close> returns a result with no committed generation, no proposed
  generation and no error. In every result it returns, a slot that is present holds a
  generation whose \<^verbatim>\<open>Version\<close> is greater than 0.
\<close>

theorem GetGenerations_no_history:
  "(getClientInfo g ordinal = Some c \<and> 0 \<le> ordinal
      \<and> ordinal < int (length (Brokers (discoverer g)))
      \<and> Get c (getPeerUrl x (Brokers (discoverer g) ! nat ordinal) (generationUrl x token))
          = (Some resp, None)
      \<and> StatusCode resp = 200 \<and> Body resp = Json body
      \<and> getGenHandler x peer tokenParam
          = Returned \<lparr>returned = None, written = Some body\<rparr>
      \<and> ParseInt (TrimSpace tokenParam) = Inr token
      \<and> localDb peer = Some db
      \<and> (GetGenerationsByToken db token = Inr None
          \<or> GetGenerationsByToken db token = Inr (Some []))
    \<longrightarrow> GetGenerations x g ordinal token
        = Returned \<lparr>Committed = None, Proposed = None, Error = None\<rparr>)
   \<and> (GetGenerations x g ordinal token = Returned result \<longrightarrow>
        (\<forall>gen. Committed result = Some gen \<longrightarrow> 0 < Version gen)
        \<and> (\<forall>gen. Proposed result = Some gen \<longrightarrow> 0 < Version gen))"
proof (intro conjI impI)
  assume "getClientInfo g ordinal = Some c \<and> 0 \<le> ordinal
      \<and> ordinal < int (length (Brokers (discoverer g)))
      \<and> Get c (getPeerUrl x (Brokers (discoverer g) ! nat ordinal) (generationUrl x token))
          = (Some resp, None)
      \<and> StatusCode resp = 200 \<and> Body resp = Json body
      \<and> getGenHandler x peer tokenParam
          = Returned \<lparr>returned = None, written = Some body\<rparr>
      \<and> ParseInt (TrimSpace tokenParam) = Inr token
      \<and> localDb peer = Some db
      \<and> (GetGenerationsByToken db token = Inr None
          \<or> GetGenerationsByToken db token = Inr (Some []))"
  then show "GetGenerations x g ordinal token
        = Returned \<lparr>Committed = None, Proposed = None, Error = None\<rparr>"
    by (auto simp: GetGenerations_def requestGet_def getGenHandler_def marshalGenerations_def
        decodeGenerations_def)
next
  assume "GetGenerations x g ordinal token = Returned result"
  then show "\<forall>gen. Committed result = Some gen \<longrightarrow> 0 < Version gen"
    by (auto simp: GetGenerations_def
        split: outcome.splits prod.splits option.splits sum.splits if_splits)
next
  assume "GetGenerations x g ordinal token = Returned result"
  then show "\<forall>gen. Proposed result = Some gen \<longrightarrow> 0 < Version gen"
    by (auto simp: GetGenerations_def
        split: outcome.splits prod.splits option.splits sum.splits if_splits)
qed

theorem GetGenerations_no_history_witness:
  "GetGenerations sampleExt sampleGossiper 1 42
     = Returned \<lparr>Committed = None, Proposed = None, Error = None\<rparr>
   \<and> localDb samplePeer = Some emptyDb
   \<and> GetGenerationsByToken emptyDb 42 = Inr (Some [])"
proof -
  let ?resp = "\<lparr>StatusCode = 200, StatusText = ''200 OK'', Body = Json (JArr [])\<rparr>"
  have h: "getGenHandler sampleExt samplePeer ''42''
           = Returned \<lparr>returned = None, written = Some (JArr [])\<rparr>"
    by (simp add: getGenHandler_def parse_42 samplePeer_def NewGossiper_def emptyDb_def
        marshalGenerations_def)
  have u: "getPeerUrl sampleExt (Brokers (discoverer sampleGossiper) ! nat 1)
             (generationUrl sampleExt 42) = ''http://broker-1/v1/generations/42''"
    by (simp add: show_42 sampleGossiper_def NewGossiper_def sampleDiscoverer_def
        sampleBrokers_def sampleExt_def)
  have r: "Get sampleClient ''http://broker-1/v1/generations/42'' = (Some ?resp, None)"
    by (simp add: sampleClient_def h)
  have c: "getClientInfo sampleGossiper 1 = Some sampleClient"
    by (simp add: getClientInfo_def sampleGossiper_def)
  have n: "1 < int (length (Brokers (discoverer sampleGossiper)))"
    by (simp add: sampleGossiper_def NewGossiper_def sampleDiscoverer_def sampleBrokers_def)
  have l: "localDb samplePeer = Some emptyDb"
    by (simp add: samplePeer_def NewGossiper_def)
  have d: "GetGenerationsByToken emptyDb 42 = Inr (Some [])"
    by (simp add: emptyDb_def)
  have "getClientInfo sampleGossiper 1 = Some sampleClient \<and> (0::int) \<le> 1
      \<and> 1 < int (length (Brokers (discoverer sampleGossiper)))
      \<and> Get sampleClient (getPeerUrl sampleExt (Brokers (discoverer sampleGossiper) ! nat 1)
            (generationUrl sampleExt 42)) = (Some ?resp, None)
      \<and> StatusCode ?resp = 200 \<and> Body ?resp = Json (JArr [])
      \<and> getGenHandler sampleExt samplePeer ''42''
          = Returned \<lparr>returned = None, written = Some (JArr [])\<rparr>
      \<and> ParseInt (TrimSpace ''42'') = Inr 42
      \<and> localDb samplePeer = Some emptyDb
      \<and> (GetGenerationsByToken emptyDb 42 = Inr None
          \<or> GetGenerationsByToken emptyDb 42 = Inr (Some []))"
    unfolding u r using c n d l h parse_42 by simp
  then show ?thesis
    using GetGenerations_no_history
      [of sampleGossiper 1 sampleClient sampleExt 42 ?resp "JArr []" samplePeer "''42''"
          emptyDb]
      d l
    by simp
qed




text \<open>
  C6, as amended. On a writer that accepts every write, \<^verbatim>\<open>marshalResponse\<close> returns no
  error and appends exactly the frame: 2 bytes for the item count, then per item 8 bytes
  for the token, 2 bytes for the generation id, 1 byte for the length of the topic name,
  the bytes of the name and the data block, every integer in the one byte order. Read in
  that byte order, the token and generation id fields give back the token and the
  generation id; the count field gives the number of items modulo 65536 and the name
  length field the length of the name modulo 256 (the number itself below 65536 items and
  below 256 bytes).
\<close>

theorem marshalResponse_frame:
  assumes "set (faults w) \<subseteq> {None}"
  shows "fst (marshalResponse contentType order w items) = None
   \<and> sent (snd (marshalResponse contentType order w items)) = sent w @ frame order items
   \<and> frame order items = natBytes order 2 (length items) @ concat (map (frameItem order) items)
   \<and> length (natBytes order 2 (length items)) = 2
   \<and> bytesNat order (natBytes order 2 (length items)) = length items mod 65536
   \<and> (\<forall>i. frameItem order i =
            natBytes order 8 (unat (Token (topic i)))
            @ natBytes order 2 (unat (GenId (topic i)))
            @ natBytes order 1 (length (Name (topic i)))
            @ map of_char (Name (topic i))
            @ DataBlock (chunk i)
          \<and> length (natBytes order 8 (unat (Token (topic i)))) = 8
          \<and> bytesNat order (natBytes order 8 (unat (Token (topic i)))) = unat (Token (topic i))
          \<and> length (natBytes order 2 (unat (GenId (topic i)))) = 2
          \<and> bytesNat order (natBytes order 2 (unat (GenId (topic i)))) = unat (GenId (topic i))
          \<and> length (natBytes order 1 (length (Name (topic i)))) = 1
          \<and> bytesNat order (natBytes order 1 (length (Name (topic i))))
              = length (Name (topic i)) mod 256)"
proof -
  note r = marshalResponse_accepted[OF assms, of contentType order items]
  have t: "bytesNat order (natBytes order 8 (unat v)) = unat v" for v :: "64 word"
    using unsigned_less[of v, where 'a = nat] by (simp add: bytesNat_natBytes)
  have g: "bytesNat order (natBytes order 2 (unat v)) = unat v" for v :: "16 word"
    using unsigned_less[of v, where 'a = nat] by (simp add: bytesNat_natBytes)
  have c: "bytesNat order (natBytes order 2 n) = n mod 65536" for n
    using bytesNat_natBytes[of order 2 n] by simp
  have l: "bytesNat order (natBytes order 1 n) = n mod 256" for n
    using bytesNat_natBytes[of order 1 n] by simp
  have "fst (marshalResponse contentType order w items) = None"
    using r by simp
  moreover have "sent (snd (marshalResponse contentType order w items)) = sent w @ frame order items"
    using r by simp
  moreover have "frame order items
      = natBytes order 2 (length items) @ concat (map (frameItem order) items)"
    by (simp only: frame_def)
  moreover have "length (natBytes order 2 (length items)) = 2"
    by (rule length_natBytes)
  moreover have "bytesNat order (natBytes order 2 (length items)) = length items mod 65536"
    by (rule c)
  moreover have "\<forall>i. frameItem order i =
            natBytes order 8 (unat (Token (topic i)))
            @ natBytes order 2 (unat (GenId (topic i)))
            @ natBytes order 1 (length (Name (topic i)))
            @ map of_char (Name (topic i))
            @ DataBlock (chunk i)
          \<and> length (natBytes order 8 (unat (Token (topic i)))) = 8
          \<and> bytesNat order (natBytes order 8 (unat (Token (topic i)))) = unat (Token (topic i))
          \<and> length (natBytes order 2 (unat (GenId (topic i)))) = 2
          \<and> bytesNat order (natBytes order 2 (unat (GenId (topic i)))) = unat (GenId (topic i))
          \<and> length (natBytes order 1 (length (Name (topic i)))) = 1
          \<and> bytesNat order (natBytes order 1 (length (Name (topic i))))
              = length (Name (topic i)) mod 256"
    by (intro allI conjI) (simp_all only: frameItem_def length_natBytes t g l)
  ultimately show ?thesis
    by (intro conjI)
qed

theorem marshalResponse_frame_witness:
  "sent (snd (marshalResponse ''application/octet-stream'' BigEndian freshWriter
                [\<lparr>chunk = \<lparr>DataBlock = [1, 2, 3]\<rparr>,
                  topic = \<lparr>Name = ''ab'', Token = 5, GenId = 1\<rparr>\<rparr>]))
   = [0, 1, 0, 0, 0, 0, 0, 0, 0, 5, 0, 1, 2, 97, 98, 1, 2, 3]"
proof -
  have a: "set (faults freshWriter) \<subseteq> {None}" by (simp add: freshWriter_def)
  have b: "natBytes BigEndian 2 (Suc 0) = [0, 1]"
    "natBytes BigEndian 8 5 = [0, 0, 0, 0, 0, 0, 0, 5]"
    by (simp_all add: natBytes_def small_ranges)
  have "natBytes BigEndian 1 2 = [2]"
    by (simp add: natBytes_def)
  then have c: "natBytes BigEndian (Suc 0) (Suc (Suc 0)) = [2]"
    by (simp add: numeral_2_eq_2)
  have "frame BigEndian [\<lparr>chunk = \<lparr>DataBlock = [1, 2, 3]\<rparr>,
                  topic = \<lparr>Name = ''ab'', Token = 5, GenId = 1\<rparr>\<rparr>]
        = [0, 1, 0, 0, 0, 0, 0, 0, 0, 5, 0, 1, 2, 97, 98, 1, 2, 3]"
    by (simp add: frame_def frameItem_def b c)
  with marshalResponse_frame[OF a, of "''application/octet-stream''" BigEndian
      "[\<lparr>chunk = \<lparr>DataBlock = [1, 2, 3]\<rparr>, topic = \<lparr>Name = ''ab'', Token = 5, GenId = 1\<rparr>\<rparr>]"]
  show ?thesis
    by (simp add: freshWriter_def)
qed

text \<open>
  The claim as stated fails for a topic name of 256 bytes: the byte written for the name's
  length is 0, and the 256 bytes of the name follow it.
\<close>

theorem marshalResponse_long_name:
  "length (Name (topic longNameItem)) = 256
   \<and> sent (snd (marshalResponse ''application/octet-stream'' BigEndian freshWriter
                  [longNameItem])) ! 12 = 0
   \<and> take 256 (drop 13 (sent (snd (marshalResponse ''application/octet-stream'' BigEndian
                                     freshWriter [longNameItem]))))
     = map of_char (Name (topic longNameItem))"
proof -
  have "set (faults freshWriter) \<subseteq> {None}" by (simp add: freshWriter_def)
  from marshalResponse_accepted[OF this, of "''application/octet-stream''" BigEndian "[longNameItem]"]
  have s: "sent (snd (marshalResponse ''application/octet-stream'' BigEndian freshWriter
                  [longNameItem])) = frame BigEndian [longNameItem]"
    by (simp add: freshWriter_def)
  have n: "length (Name (topic longNameItem)) = 256"
    by (simp add: longNameItem_def)
  define pre where "pre = natBytes BigEndian 2 (Suc 0)
           @ natBytes BigEndian 8 (unat (Token (topic longNameItem)))
           @ natBytes BigEndian 2 (unat (GenId (topic longNameItem)))"
  define name where "name = (map of_char (Name (topic longNameItem)) :: 8 word list)"
  have b: "natBytes BigEndian (Suc 0) 256 = [0]"
    by (simp add: natBytes_def)
  have f: "frame BigEndian [longNameItem] = pre @ 0 # name @ DataBlock (chunk longNameItem)"
    by (simp add: frame_def frameItem_def n b pre_def name_def)
  have l: "length pre = 12"
    by (simp add: pre_def length_natBytes)
  have m: "length name = 256"
    by (simp add: name_def n)
  have "frame BigEndian [longNameItem] ! 12 = 0"
    unfolding f using l by (simp add: nth_append)
  moreover have "take 256 (drop 13 (frame BigEndian [longNameItem])) = name"
    unfolding f using l m by simp
  ultimately show ?thesis using n s by (simp add: name_def)
qed







text \<open>
  C9. When the discoverer's list of peers is empty, \<^verbatim>\<open>WaitForPeersUp\<close> returns at once:
  it logs the warning "No peer detected (dev mode)" and does nothing else; it probes no
  peer, it does not sleep, and it does not end the process.
\<close>

theorem WaitForPeersUp_no_peers:
  "peersAt env 0 = [] \<Longrightarrow>
   WaitForPeersUp env = (Returned (), [LogWarn ''No peer detected (dev mode)''])
   \<and> filter isProbed (snd (WaitForPeersUp env)) = []
   \<and> filter isSlept (snd (WaitForPeersUp env)) = []"
  by (simp add: WaitForPeersUp_def isProbed_def isSlept_def)

theorem WaitForPeersUp_no_peers_witness:
  "peersAt devEnv 0 = []
   \<and> WaitForPeersUp devEnv = (Returned (), [LogWarn ''No peer detected (dev mode)''])"
proof -
  have "peersAt devEnv 0 = []" by (simp add: devEnv_def)
  then show ?thesis using WaitForPeersUp_no_peers[of devEnv] by simp
qed

text \<open>
  C10. \<^verbatim>\<open>GenStatus.String()\<close> gives "Cancelled", "Proposed", "Accepted", "Committed" for
  the status values 0, 1, 2, 3 (the declared constants, in this order), and for every
  value outside 0..3 the array lookup is out of bounds: the call panics and returns no
  string. Conversely a call that returns had its status within 0..3.
\<close>

theorem GenStatus_String_table:
  "GenStatus_String 0 = Returned ''Cancelled''
   \<and> GenStatus_String 1 = Returned ''Proposed''
   \<and> GenStatus_String 2 = Returned ''Accepted''
   \<and> GenStatus_String 3 = Returned ''Committed''
   \<and> StatusCancelled = 0 \<and> StatusProposed = 1 \<and> StatusAccepted = 2 \<and> StatusCommitted = 3
   \<and> (\<forall>s. s < 0 \<or> 3 < s \<longrightarrow> GenStatus_String s = Panicked IndexOutOfRange)
   \<and> (\<forall>s name. GenStatus_String s = Returned name \<longrightarrow> 0 \<le> s \<and> s \<le> 3)"
  by (auto simp: GenStatus_String_def genStatusNames_def StatusCancelled_def
      StatusProposed_def StatusAccepted_def StatusCommitted_def split: if_splits)

theorem GenStatus_String_table_witness:
  "GenStatus_String 4 = Panicked IndexOutOfRange
   \<and> GenStatus_String (- 1) = Panicked IndexOutOfRange
   \<and> GenStatus_String StatusAccepted = Returned ''Accepted''"
proof -
  have out: "\<And>s. s < 0 \<or> 3 < s \<Longrightarrow> GenStatus_String s = Panicked IndexOutOfRange"
    using GenStatus_String_table by blast
  have "GenStatus_String 4 = Panicked IndexOutOfRange" by (rule out) simp
  moreover have "GenStatus_String (- 1) = Panicked IndexOutOfRange" by (rule out) simp
  moreover have "GenStatus_String StatusAccepted = Returned ''Accepted''"
    using GenStatus_String_table by (simp add: StatusAccepted_def)
  ultimately show ?thesis by simp
qed

section \<open>Further properties\<close>

text \<open>
  The accepting path of the proposal handler. When the token parameter parses and the body decodes to exactly two slots with a
  second slot that is not null, the proposal handler calls the registered listener once,
  with the two slots, and returns what the listener returns; with no listener registered
  it panics.
\<close>

theorem postGenHandler_two_slots:
  "ParseInt (TrimSpace tokenParam) = Inr token \<and> decodeGenerationPtrs x body = Inr [g0, Some g1]
   \<longrightarrow> postGenHandler x g tokenParam body =
         (case genListener g of
            None \<Rightarrow> (Panicked (PanicMessage ''Generation listener was not registered''), [])
          | Some listener \<Rightarrow>
              (Returned (OnNewRemoteGeneration listener g0 (Some g1)),
               [NewRemoteGeneration g0 (Some g1)]))"
  by (simp add: postGenHandler_def split: option.splits)

theorem postGenHandler_two_slots_witness:
  "postGenHandler sampleExt (samplePeer\<lparr>genListener := Some rejectingListener\<rparr>) '' 7''
     (Json (JArr [JNull, JObj [(''start'', JNum 0 0), (''end'', JNum 100 0),
                               (''version'', JNum 1 0)]]))
   = (Returned (Some (HttpError 409 ''Conflict'')),
      [NewRemoteGeneration None (Some (zeroGeneration\<lparr>End := 100, Version := 1\<rparr>))])"
proof -
  have p: "ParseInt (TrimSpace '' 7'') = Inr 7"
    by (simp add: ParseInt_def TrimSpace_def spaceWidth_def spaceWidthEnd_def asciiSpace_def
        unicodeSpaces_def digitOf_def)
  have u: "unmarshalMembers sampleExt
             [(''start'', JNum 0 0), (''end'', JNum 100 0), (''version'', JNum 1 0)]
           = Inr (zeroGeneration\<lparr>End := 100, Version := 1\<rparr>)"
    by (simp add: sampleExt_def sampleUnmarshal_def intMember_def followersMember_def
        txMember_def toDeleteMember_def zeroGeneration_def)
  have d: "decodeGenerationPtrs sampleExt
             (Json (JArr [JNull, JObj [(''start'', JNum 0 0), (''end'', JNum 100 0),
                                       (''version'', JNum 1 0)]]))
           = Inr [None, Some (zeroGeneration\<lparr>End := 100, Version := 1\<rparr>)]"
    by (simp add: decodeGenerationPtrs_def decodeGenerationPtr_def u)
  show ?thesis
    using postGenHandler_two_slots
        [of "'' 7''" 7 sampleExt
            "Json (JArr [JNull, JObj [(''start'', JNum 0 0), (''end'', JNum 100 0),
                                      (''version'', JNum 1 0)]])"
            None "zeroGeneration\<lparr>End := 100, Version := 1\<rparr>"
            "samplePeer\<lparr>genListener := Some rejectingListener\<rparr>"]
      p d
    by (simp add: rejectingListener_def)
qed

text \<open>
  The slots of a read. When the request succeeds and the body decodes to a list of generations,
  \<^verbatim>\<open>GetGenerations\<close> reports the first element as committed and the second as proposed,
  each only if the list has it and its \<^verbatim>\<open>Version\<close> is greater than 0, and no error. A
  null slot decodes to the zero generation, of version 0, and is not reported.
\<close>

theorem GetGenerations_slots:
  "requestGet x g ordinal (generationUrl x token) = Returned (Some resp, None)
   \<and> decodeGenerations x (Body resp) = Inr gens
   \<longrightarrow> GetGenerations x g ordinal token =
         Returned
           \<lparr>Committed = (case gens of gen # rest \<Rightarrow> if 0 < Version gen then Some gen else None
                          | [] \<Rightarrow> None),
            Proposed = (case gens of c # gen # rest \<Rightarrow> if 0 < Version gen then Some gen else None
                          | _ \<Rightarrow> None),
            Error = None\<rparr>"
  by (auto simp: GetGenerations_def split: list.splits)

theorem GetGenerations_slots_witness:
  "GetGenerations sampleExt historyGossiper 2 100
   = Returned
       \<lparr>Committed = Some (zeroGeneration\<lparr>End := 100, Version := 1, Leader := 2, Status := 3\<rparr>),
        Proposed = None, Error = None\<rparr>"
proof -
  let ?body = "Json (JArr [JObj [(''start'', JNum 0 0), (''end'', JNum 100 0),
                                 (''version'', JNum 1 0), (''leader'', JNum 2 0),
                                 (''status'', JNum 3 0)],
                           JNull])"
  let ?resp = "\<lparr>StatusCode = 200, StatusText = ''200 OK'', Body = ?body\<rparr>"
  let ?gen = "zeroGeneration\<lparr>End := 100, Version := 1, Leader := 2, Status := 3\<rparr>"
  have r: "requestGet sampleExt historyGossiper 2 (generationUrl sampleExt 100)
           = Returned (Some ?resp, None)"
    by (simp add: requestGet_def getClientInfo_def historyGossiper_def NewGossiper_def
        sampleDiscoverer_def sampleBrokers_def historyClient_def)
  have u: "unmarshalMembers sampleExt
             [(''start'', JNum 0 0), (''end'', JNum 100 0), (''version'', JNum 1 0),
              (''leader'', JNum 2 0), (''status'', JNum 3 0)] = Inr ?gen"
    by (simp add: sampleExt_def sampleUnmarshal_def intMember_def followersMember_def
        txMember_def toDeleteMember_def zeroGeneration_def)
  have d: "decodeGenerations sampleExt (Body ?resp) = Inr [?gen, zeroGeneration]"
    by (simp add: decodeGenerations_def decodeGeneration_def u)
  have v: "Version ?gen = 1" "Version zeroGeneration = 0"
    by (simp_all add: zeroGeneration_def)
  show ?thesis
    using GetGenerations_slots[of sampleExt historyGossiper 2 100 ?resp "[?gen, zeroGeneration]"]
      r d v
    by simp
qed

end
